theory Spec2Isabelle
  imports Main "HOL-Library.AList" "HOL-Library.Sublist"
begin

section \<open>The native heap\<close>

text \<open>
  A shallow embedding of \<^verbatim>\<open>pybind11_protobuf/fast_cpp_proto_casters.h\<close>.

  A C++ protocol buffer object lives at an address. What the casters read of it is its
  \<^verbatim>\<open>Reflection\<close> instance (compared by pointer, so an identity number here), the
  full name of its descriptor, and its content, which the casters only copy as a whole.
\<close>

type_synonym addr = nat

record message =
  reflection :: nat
  full_name :: string
  body :: string

text \<open>
  The heap is an association list from addresses to objects. Beside the objects it keeps
  a trace of what was done to it: every \<^verbatim>\<open>new\<close>, every value copy from one object to
  another, every population through \<^verbatim>\<open>PyProtoCopyToCProto\<close> and every \<^verbatim>\<open>delete\<close>.
  The trace is never read by the program; it is the allocation counter of the tests.
\<close>

datatype event = Allocated addr | Copied addr addr | Populated addr | Deleted addr

record heap =
  objects :: "(addr \<times> message) list"
  trace :: "event list"

definition deref :: "heap \<Rightarrow> addr \<Rightarrow> message option" where
  "deref H a = map_of (objects H) a"

text \<open>An address above every address in use; address 0 is never handed out.\<close>

fun fresh_key :: "(nat \<times> 'a) list \<Rightarrow> nat" where
  "fresh_key [] = 1"
| "fresh_key ((a, x) # xs) = max (Suc a) (fresh_key xs)"

text \<open>\<^verbatim>\<open>new T(...)\<close>: a new object with the given initial value, at a fresh address.\<close>

definition alloc :: "message \<Rightarrow> heap \<Rightarrow> addr \<times> heap" where
  "alloc m H =
     (let a = fresh_key (objects H)
      in (a, H\<lparr>objects := (a, m) # objects H, trace := trace H @ [Allocated a]\<rparr>))"

text \<open>\<^verbatim>\<open>delete p\<close>, as the destructor of a \<^verbatim>\<open>std::unique_ptr\<close> runs it.\<close>

definition free :: "addr \<Rightarrow> heap \<Rightarrow> heap" where
  "free a H = H\<lparr>objects := AList.delete a (objects H), trace := trace H @ [Deleted a]\<rparr>"

text \<open>
  Assigning a new pointer to a \<^verbatim>\<open>std::unique_ptr\<close> deletes the object it held, if
  it held one.
\<close>

definition release :: "addr option \<Rightarrow> heap \<Rightarrow> heap" where
  "release old H = (case old of None \<Rightarrow> H | Some a \<Rightarrow> free a H)"

text \<open>
  \<^verbatim>\<open>value->New()\<close> is an empty object of the same dynamic type; \<^verbatim>\<open>*owned = *value\<close>
  and \<^verbatim>\<open>owned->CopyFrom(*value)\<close> overwrite the content of an object with that of
  another object of its type.
\<close>

definition New :: "message \<Rightarrow> message" where
  "New m = m\<lparr>body := []\<rparr>"

definition CopyFrom :: "message \<Rightarrow> message \<Rightarrow> message" where
  "CopyFrom dst src = dst\<lparr>body := body src\<rparr>"

definition copy_object :: "addr \<Rightarrow> addr \<Rightarrow> message \<Rightarrow> message \<Rightarrow> heap \<Rightarrow> heap" where
  "copy_object from to dst src H =
     H\<lparr>objects := AList.update to (CopyFrom dst src) (objects H),
       trace := trace H @ [Copied from to]\<rparr>"

definition populate :: "addr \<Rightarrow> message \<Rightarrow> heap \<Rightarrow> heap" where
  "populate a m H =
     H\<lparr>objects := AList.update a m (objects H), trace := trace H @ [Populated a]\<rparr>"

section \<open>The Python side and the functions of proto_cast_util\<close>

text \<open>A \<^verbatim>\<open>pybind11::handle\<close>: Python's None, or some other Python object.\<close>

datatype handle = PyNone | PyObject nat

definition is_none :: "handle \<Rightarrow> bool" where
  "is_none src = (src = PyNone)"

text \<open>
  The header calls four functions that \<^verbatim>\<open>proto_cast_util.h\<close> declares; the loaders
  take them as a parameter.
  \<^item> \<^verbatim>\<open>PyProtoGetCppMessagePointer\<close>: the C++ object behind a Python proto, or null;
  \<^item> \<^verbatim>\<open>PyProtoDescriptorName\<close>: the full name of the Python proto's descriptor, if it
    has one;
  \<^item> \<^verbatim>\<open>PyProtoCopyToCProto\<close>: serializes the Python proto and parses it into the
    given object; it returns whether that worked, and the object is what the parse made
    of it, also when it failed;
  \<^item> \<^verbatim>\<open>AllocateCProtoByName\<close>: a new object of the type of that name in the C++
    descriptor pool, or null.
\<close>

record api =
  PyProtoGetCppMessagePointer :: "handle \<Rightarrow> addr option"
  PyProtoDescriptorName :: "handle \<Rightarrow> string option"
  PyProtoCopyToCProto :: "handle \<Rightarrow> message \<Rightarrow> bool \<times> message"
  AllocateCProtoByName :: "string \<Rightarrow> message option"

text \<open>
  The template parameter \<^verbatim>\<open>ProtoType\<close>: the reflection of its default instance and
  the full name of its descriptor. \<^verbatim>\<open>new ProtoType()\<close> is an empty object of it.
\<close>

record proto_type =
  default_reflection :: nat
  descriptor_full_name :: string

definition new_ProtoType :: "proto_type \<Rightarrow> message" where
  "new_ProtoType T =
     \<lparr>reflection = default_reflection T, full_name = descriptor_full_name T, body = []\<rparr>"

section \<open>proto_caster_load_impl\<close>

text \<open>
  The two data members of the struct: \<^verbatim>\<open>const ProtoType *value\<close> and
  \<^verbatim>\<open>std::unique_ptr<ProtoType> owned\<close>, null pointers as \<open>None\<close>.
\<close>

record caster =
  value_ptr :: "addr option"
  owned :: "addr option"

text \<open>
  \<^verbatim>\<open>value\<close> has no initializer and \<^verbatim>\<open>owned\<close> is constructed null, so the loaders
  take the caster as they find it. \<open>Empty\<close> is the caster with both pointers null:
  one that was value-initialized, or that loaded None.
\<close>

definition Empty :: caster where
  "Empty = \<lparr>value_ptr = None, owned = None\<rparr>"

text \<open>
  What is not an exception of the program but a read through a pointer to an object
  that is gone is the fault \<open>dangling_pointer\<close>; \<open>type_error\<close> is pybind11's
  exception, with its message.
\<close>

datatype error = type_error string | dangling_pointer

text \<open>
  Lines 118 to 128 of \<^verbatim>\<open>load\<close>: the incoming object is not a fast_cpp_proto, so it is
  serialized and parsed into a new object of \<^verbatim>\<open>ProtoType\<close>.
\<close>

definition load_fallback ::
  "api \<Rightarrow> proto_type \<Rightarrow> handle \<Rightarrow> caster \<times> heap \<Rightarrow> bool \<times> caster \<times> heap" where
  "load_fallback A T src = (\<lambda>(c, H).
     (case PyProtoDescriptorName A src of
        None \<Rightarrow> (False, c, H)
      | Some descriptor_name \<Rightarrow>
          if descriptor_name \<noteq> descriptor_full_name T then (False, c, H)
          else
            let (a, H1) = alloc (new_ProtoType T) H;
                H2 = release (owned c) H1;
                (ok, m) = PyProtoCopyToCProto A src (new_ProtoType T)
            in (ok, \<lparr>value_ptr = Some a, owned = Some a\<rparr>, populate a m H2)))"

text \<open>\<^verbatim>\<open>proto_caster_load_impl<ProtoType>::load\<close>, lines 90 to 129.\<close>

definition load ::
  "api \<Rightarrow> proto_type \<Rightarrow> handle \<Rightarrow> caster \<times> heap \<Rightarrow> error + bool \<times> caster \<times> heap" where
  "load A T src = (\<lambda>(c, H).
     if is_none src then Inr (True, c\<lparr>value_ptr := None\<rparr>, H)
     else
       (case PyProtoGetCppMessagePointer A src of
          Some p \<Rightarrow>
            (case deref H p of
               None \<Rightarrow> Inl dangling_pointer
             | Some message \<Rightarrow>
                 if default_reflection T \<noteq> reflection message then Inr (False, c, H)
                 else Inr (True, c\<lparr>value_ptr := Some p\<rparr>, H))
        | None \<Rightarrow> Inr (load_fallback A T src (c, H))))"

text \<open>
  \<^verbatim>\<open>proto_caster_load_impl<::google::protobuf::Message>::load\<close>, lines 150 to 179. The
  assignment in the condition of line 156 writes \<^verbatim>\<open>value\<close> whatever the pointer is.
\<close>

definition load_Message ::
  "api \<Rightarrow> handle \<Rightarrow> caster \<times> heap \<Rightarrow> bool \<times> caster \<times> heap" where
  "load_Message A src = (\<lambda>(c, H).
     if is_none src then (True, c\<lparr>value_ptr := None\<rparr>, H)
     else
       let c1 = c\<lparr>value_ptr := PyProtoGetCppMessagePointer A src\<rparr>
       in if value_ptr c1 \<noteq> None then (True, c1, H)
          else
            (case PyProtoDescriptorName A src of
               None \<Rightarrow> (False, c1, H)
             | Some descriptor_name \<Rightarrow>
                 (case AllocateCProtoByName A descriptor_name of
                    None \<Rightarrow> (False, c1\<lparr>owned := None\<rparr>, release (owned c1) H)
                  | Some m0 \<Rightarrow>
                      let (a, H1) = alloc m0 H;
                          H2 = release (owned c1) H1;
                          (ok, m) = PyProtoCopyToCProto A src m0
                      in (ok, \<lparr>value_ptr = Some a, owned = Some a\<rparr>, populate a m H2))))"

text \<open>
  \<^verbatim>\<open>as_unique_ptr\<close>, lines 133 to 140 and 183 to 190: the two specializations differ
  in how they write the copy (\<^verbatim>\<open>*owned = *value\<close> and \<^verbatim>\<open>owned->CopyFrom(*value)\<close>),
  not in what they do. The result is the returned \<^verbatim>\<open>std::unique_ptr\<close>;
  \<^verbatim>\<open>std::move(owned)\<close> leaves the member null.
\<close>

definition as_unique_ptr ::
  "caster \<times> heap \<Rightarrow> error + addr option \<times> caster \<times> heap" where
  "as_unique_ptr = (\<lambda>(c, H).
     (case value_ptr c of
        None \<Rightarrow> Inr (None, c, H)
      | Some v \<Rightarrow>
          (case owned c of
             Some a \<Rightarrow> Inr (Some a, c\<lparr>owned := None\<rparr>, H)
           | None \<Rightarrow>
               (case deref H v of
                  None \<Rightarrow> Inl dangling_pointer
                | Some m \<Rightarrow>
                    let (a, H1) = alloc (New m) H
                    in Inr (Some a, c\<lparr>owned := None\<rparr>, copy_object v a (New m) m H1)))))"

section \<open>Casting to Python\<close>

text \<open>pybind11's \<^verbatim>\<open>return_value_policy\<close>, in the order of its enumerators.\<close>

datatype return_value_policy =
  automatic | automatic_reference | take_ownership | copy | move | reference
  | reference_internal

definition const_reference_message :: string where
  "const_reference_message =
     ''Cannot return a const reference to a ::google::protobuf::Message derived '' @
     ''type.  Consider setting return_value_policy::copy in the '' @
     ''pybind11 def().''"

text \<open>
  \<^verbatim>\<open>fast_cpp_cast_impl::cast_impl\<close>, lines 197 to 212. \<^verbatim>\<open>GenericFastCppProtoCast\<close>
  is declared in \<^verbatim>\<open>proto_cast_util.h\<close>; \<open>cast_impl\<close> takes it as the parameter
  \<open>G\<close>, with whatever state \<open>'w\<close> it works on. \<^verbatim>\<open>none().release()\<close> is a
  handle of Python's None.
\<close>

definition cast_impl ::
  "(addr \<Rightarrow> return_value_policy \<Rightarrow> handle \<Rightarrow> bool \<Rightarrow> 'w \<Rightarrow> error + handle \<times> 'w) \<Rightarrow>
   addr option \<Rightarrow> return_value_policy \<Rightarrow> handle \<Rightarrow> bool \<Rightarrow> 'w \<Rightarrow> error + handle \<times> 'w" where
  "cast_impl G src policy parent is_const W =
     (case src of
        None \<Rightarrow> Inr (PyNone, W)
      | Some p \<Rightarrow>
          if is_const \<and> (policy = reference \<or> policy = reference_internal)
          then Inl (type_error const_reference_message)
          else G p policy parent is_const W)"

text \<open>
  \<^verbatim>\<open>proto_caster::cast(const ProtoType *src, ...)\<close>, lines 246 to 253, and
  \<^verbatim>\<open>proto_caster::cast(ProtoType const &src, ...)\<close>, lines 269 to 277. The second
  rewrites its \<^verbatim>\<open>policy\<close> as the first does and then does not read it: it passes
  \<^verbatim>\<open>return_value_policy::copy\<close>. A reference is the address of an object.
\<close>

definition cast_const_ptr ::
  "(addr \<Rightarrow> return_value_policy \<Rightarrow> handle \<Rightarrow> bool \<Rightarrow> 'w \<Rightarrow> error + handle \<times> 'w) \<Rightarrow>
   addr option \<Rightarrow> return_value_policy \<Rightarrow> handle \<Rightarrow> 'w \<Rightarrow> error + handle \<times> 'w" where
  "cast_const_ptr G src policy parent W =
     (let policy1 = (if policy = automatic \<or> policy = automatic_reference then copy else policy)
      in cast_impl G src policy1 parent True W)"

definition cast_const_ref ::
  "(addr \<Rightarrow> return_value_policy \<Rightarrow> handle \<Rightarrow> bool \<Rightarrow> 'w \<Rightarrow> error + handle \<times> 'w) \<Rightarrow>
   addr \<Rightarrow> return_value_policy \<Rightarrow> handle \<Rightarrow> 'w \<Rightarrow> error + handle \<times> 'w" where
  "cast_const_ref G src policy parent W = cast_impl G (Some src) copy parent True W"

text \<open>
  \<^verbatim>\<open>copyable_holder_caster::cast\<close>, lines 412 to 418. The holder is a
  \<^verbatim>\<open>std::shared_ptr\<close>, read through \<^verbatim>\<open>holder_helper::get\<close>; \<^verbatim>\<open>*ptr\<close> is a
  const lvalue, so \<^verbatim>\<open>Base::cast\<close> is the overload for \<^verbatim>\<open>ProtoType const &\<close>.
\<close>

definition copyable_holder_cast ::
  "(addr \<Rightarrow> return_value_policy \<Rightarrow> handle \<Rightarrow> bool \<Rightarrow> 'w \<Rightarrow> error + handle \<times> 'w) \<Rightarrow>
   addr option \<Rightarrow> return_value_policy \<Rightarrow> handle \<Rightarrow> 'w \<Rightarrow> error + handle \<times> 'w" where
  "copyable_holder_cast G src policy p W =
     (case src of
        None \<Rightarrow> Inr (PyNone, W)
      | Some ptr \<Rightarrow> cast_const_ref G ptr copy p W)"

text \<open>The enumerators as the source writes them, to find them in a message.\<close>

fun policy_name :: "return_value_policy \<Rightarrow> string" where
  "policy_name automatic = ''automatic''"
| "policy_name automatic_reference = ''automatic_reference''"
| "policy_name take_ownership = ''take_ownership''"
| "policy_name copy = ''copy''"
| "policy_name move = ''move''"
| "policy_name reference = ''reference''"
| "policy_name reference_internal = ''reference_internal''"

section \<open>The Python objects that a cast makes\<close>

text \<open>
  A Python proto object made by a cast wraps a C++ object: one of its own, or the
  caller's. With \<^verbatim>\<open>reference_internal\<close> it also keeps its parent alive.
\<close>

record wrapper =
  wrapped :: addr
  keep_alive :: "handle option"

record world =
  native :: heap
  python :: "(nat \<times> wrapper) list"

definition wrap :: "addr \<Rightarrow> handle option \<Rightarrow> world \<Rightarrow> handle \<times> world" where
  "wrap a k W =
     (let n = fresh_key (python W)
      in (PyObject n, W\<lparr>python := (n, \<lparr>wrapped = a, keep_alive = k\<rparr>) # python W\<rparr>))"

text \<open>
  Modelled from the spec: \<^verbatim>\<open>GenericFastCppProtoCast\<close> is declared in
  \<^verbatim>\<open>proto_cast_util.h\<close> and defined beside it, neither among the sources. Section 4.4
  of the specification: \<^verbatim>\<open>copy\<close> produces an independent foreign-side object populated
  from \<^verbatim>\<open>*ptr\<close> via full value copy, never aliased back to \<^verbatim>\<open>ptr\<close>;
  \<^verbatim>\<open>reference\<close> and \<^verbatim>\<open>reference_internal\<close> produce a wrapper that directly aliases
  \<^verbatim>\<open>ptr\<close>'s memory, the second with a keep-alive relationship to the parent;
  \<^verbatim>\<open>automatic\<close> is resolved to \<^verbatim>\<open>copy\<close>, and \<^verbatim>\<open>move\<close> and \<^verbatim>\<open>take_ownership\<close>
  resolve to copy semantics. The specification does not list
  \<^verbatim>\<open>automatic_reference\<close>, which the casters rewrite to \<^verbatim>\<open>copy\<close> themselves; it
  is taken with \<^verbatim>\<open>automatic\<close>. A copy reads \<^verbatim>\<open>*ptr\<close>.
\<close>

definition GenericFastCppProtoCast ::
  "addr \<Rightarrow> return_value_policy \<Rightarrow> handle \<Rightarrow> bool \<Rightarrow> world \<Rightarrow> error + handle \<times> world" where
  "GenericFastCppProtoCast src policy parent is_const W =
     (if policy = reference then Inr (wrap src None W)
      else if policy = reference_internal then Inr (wrap src (Some parent) W)
      else
        (case deref (native W) src of
           None \<Rightarrow> Inl dangling_pointer
         | Some m \<Rightarrow>
             let (a, H1) = alloc (New m) (native W);
                 H2 = copy_object src a (New m) m H1
             in Inr (wrap a None (W\<lparr>native := H2\<rparr>))))"

text \<open>
  What Python sees and does through a handle: the object that the wrapper behind the
  handle wraps, the value of that object, and a write to it.
\<close>

definition target :: "world \<Rightarrow> handle \<Rightarrow> addr option" where
  "target W h =
     (case h of
        PyNone \<Rightarrow> None
      | PyObject n \<Rightarrow> map_option wrapped (map_of (python W) n))"

definition view :: "world \<Rightarrow> handle \<Rightarrow> message option" where
  "view W h = (case target W h of None \<Rightarrow> None | Some a \<Rightarrow> deref (native W) a)"

definition write_native :: "addr \<Rightarrow> string \<Rightarrow> world \<Rightarrow> world" where
  "write_native a b W =
     (case deref (native W) a of
        None \<Rightarrow> W
      | Some m \<Rightarrow>
          W\<lparr>native := (native W)\<lparr>objects := AList.update a (m\<lparr>body := b\<rparr>) (objects (native W))\<rparr>\<rparr>)"

definition mutate :: "handle \<Rightarrow> string \<Rightarrow> world \<Rightarrow> world" where
  "mutate h b W = (case target W h of None \<Rightarrow> W | Some a \<Rightarrow> write_native a b W)"

section \<open>A concrete setting\<close>

text \<open>
  Type \<^verbatim>\<open>pkg.A\<close> with reflection 7. Object 1 is a \<^verbatim>\<open>pkg.A\<close>; object 2 is of a type
  of the same name from another pool, with reflection 8. The Python objects 1 and 2 are
  fast_cpp_protos over them; 3 to 6 are pure Python protos, of which 5 does not parse
  and 6 is of a type that the C++ pool does not have.
\<close>

definition ex_T :: proto_type where
  "ex_T = \<lparr>default_reflection = 7, descriptor_full_name = ''pkg.A''\<rparr>"

definition ex_heap :: heap where
  "ex_heap =
     \<lparr>objects = [(1, \<lparr>reflection = 7, full_name = ''pkg.A'', body = ''x''\<rparr>),
                 (2, \<lparr>reflection = 8, full_name = ''pkg.A'', body = ''y''\<rparr>)],
      trace = []\<rparr>"

definition ex_api :: api where
  "ex_api =
     \<lparr>PyProtoGetCppMessagePointer =
        (\<lambda>h. if h = PyObject 1 then Some 1 else if h = PyObject 2 then Some 2 else None),
      PyProtoDescriptorName =
        (\<lambda>h. if h = PyObject 1 \<or> h = PyObject 2 \<or> h = PyObject 3 \<or> h = PyObject 5
               then Some ''pkg.A''
             else if h = PyObject 4 then Some ''pkg.B''
             else if h = PyObject 6 then Some ''pkg.Unregistered''
             else None),
      PyProtoCopyToCProto =
        (\<lambda>h m. if h = PyObject 5 then (False, m\<lparr>body := ''part''\<rparr>)
                else (True, m\<lparr>body := ''data''\<rparr>)),
      AllocateCProtoByName =
        (\<lambda>n. if n = ''pkg.A'' then Some \<lparr>reflection = 7, full_name = ''pkg.A'', body = []\<rparr>
             else if n = ''pkg.B'' then Some \<lparr>reflection = 9, full_name = ''pkg.B'', body = []\<rparr>
             else None)\<rparr>"

text \<open>The heap after \<^verbatim>\<open>load\<close> has parsed the Python object 3 into a new object.\<close>

definition ex_loaded_heap :: heap where
  "ex_loaded_heap =
     \<lparr>objects = [(3, \<lparr>reflection = 7, full_name = ''pkg.A'', body = ''data''\<rparr>),
                 (1, \<lparr>reflection = 7, full_name = ''pkg.A'', body = ''x''\<rparr>),
                 (2, \<lparr>reflection = 8, full_name = ''pkg.A'', body = ''y''\<rparr>)],
      trace = [Allocated 3, Populated 3]\<rparr>"

definition ex_world :: world where
  "ex_world = \<lparr>native = ex_heap, python = []\<rparr>"

text \<open>
  Calling \<^verbatim>\<open>as_unique_ptr\<close> twice on one caster, keeping both results.
\<close>

definition as_unique_ptr_twice ::
  "caster \<times> heap \<Rightarrow> error + addr option \<times> addr option \<times> caster \<times> heap" where
  "as_unique_ptr_twice s =
     (case as_unique_ptr s of
        Inl e \<Rightarrow> Inl e
      | Inr (first, c1, H1) \<Rightarrow>
          (case as_unique_ptr (c1, H1) of
             Inl e \<Rightarrow> Inl e
           | Inr (second, c2, H2) \<Rightarrow> Inr (first, second, c2, H2)))"

section \<open>Facts about the heap\<close>

lemma fresh_key_above: "(a, x) \<in> set xs \<Longrightarrow> a < fresh_key xs"
  by (induction xs) auto

lemma fresh_key_unused: "map_of xs (fresh_key xs) = None"
proof (cases "map_of xs (fresh_key xs)")
  case None
  then show ?thesis .
next
  case (Some x)
  then have "(fresh_key xs, x) \<in> set xs" by (rule map_of_SomeD)
  then have "fresh_key xs < fresh_key xs" by (rule fresh_key_above)
  then show ?thesis by simp
qed

lemma CopyFrom_New: "CopyFrom (New m) m = m"
  by (simp add: CopyFrom_def New_def)

lemma deref_alloc: "deref (snd (alloc m H)) a = (if a = fst (alloc m H) then Some m else deref H a)"
  by (simp add: deref_def alloc_def Let_def)

lemma fst_alloc: "fst (alloc m H) = fresh_key (objects H)"
  by (simp add: alloc_def Let_def)

lemma deref_copy_object:
  "deref (copy_object v a dst src H) b = (if b = a then Some (CopyFrom dst src) else deref H b)"
  by (simp add: deref_def copy_object_def update_conv')

lemma python_write_native: "python (write_native a b W) = python W"
  by (simp add: write_native_def split: option.splits)

lemma target_write_native: "target (write_native a b W) h = target W h"
  by (cases h) (simp_all add: target_def python_write_native)

lemma deref_write_native:
  "deref (native (write_native a b W)) x =
     (if x = a then map_option (\<lambda>m. m\<lparr>body := b\<rparr>) (deref (native W) a)
      else deref (native W) x)"
  by (simp add: write_native_def deref_def update_conv' split: option.splits)

lemma fresh_key_Cons_neq: "fresh_key ((n, x) # xs) \<noteq> n"
  by simp

section \<open>Facts about the operations\<close>

lemma as_unique_ptr_borrowed:
  assumes "value_ptr c = Some v" and "owned c = None" and "deref H v = Some m"
  shows "\<exists>a H'. as_unique_ptr (c, H) = Inr (Some a, c, H') \<and> a = fresh_key (objects H) \<and>
           a \<noteq> v \<and> deref H a = None \<and>
           trace H' = trace H @ [Allocated a, Copied v a] \<and>
           deref H' a = Some m \<and> (\<forall>b. b \<noteq> a \<longrightarrow> deref H' b = deref H b)"
proof -
  let ?a = "fresh_key (objects H)"
  let ?H' = "copy_object v ?a (New m) m (snd (alloc (New m) H))"
  have c: "c\<lparr>owned := None\<rparr> = c"
    using assms(2) by simp
  have r: "as_unique_ptr (c, H) = Inr (Some ?a, c, ?H')"
    using assms c by (simp add: as_unique_ptr_def alloc_def Let_def)
  have n: "deref H ?a = None"
    by (simp add: deref_def fresh_key_unused)
  with assms(3) have ne: "?a \<noteq> v"
    by auto
  have t: "trace ?H' = trace H @ [Allocated ?a, Copied v ?a]"
    by (simp add: copy_object_def alloc_def Let_def)
  have d: "deref ?H' ?a = Some m"
    by (simp add: deref_copy_object CopyFrom_New)
  have o: "\<forall>b. b \<noteq> ?a \<longrightarrow> deref ?H' b = deref H b"
    by (simp add: deref_copy_object deref_alloc fst_alloc)
  from r n ne t d o show ?thesis
    by blast
qed

lemma load_fallback_Empty:
  "load_fallback A T src (Empty, H) = (False, c', H') \<Longrightarrow>
     c' = Empty \<and> H' = H \<or>
     PyProtoDescriptorName A src = Some (descriptor_full_name T) \<and>
     \<not> fst (PyProtoCopyToCProto A src (new_ProtoType T)) \<and>
     c' = \<lparr>value_ptr = Some (fresh_key (objects H)), owned = Some (fresh_key (objects H))\<rparr> \<and>
     deref H (fresh_key (objects H)) = None \<and>
     deref H' (fresh_key (objects H)) = Some (snd (PyProtoCopyToCProto A src (new_ProtoType T)))"
  by (auto simp: load_fallback_def Empty_def release_def alloc_def Let_def populate_def
      deref_def fresh_key_unused split: option.splits if_splits prod.splits)

lemma load_Message_Empty:
  "load_Message A src (Empty, H) = (False, c', H') \<Longrightarrow>
     c' = Empty \<and> H' = H \<or>
     (\<exists>n m0. PyProtoDescriptorName A src = Some n \<and> AllocateCProtoByName A n = Some m0 \<and>
        \<not> fst (PyProtoCopyToCProto A src m0) \<and>
        c' = \<lparr>value_ptr = Some (fresh_key (objects H)), owned = Some (fresh_key (objects H))\<rparr> \<and>
        deref H (fresh_key (objects H)) = None \<and>
        deref H' (fresh_key (objects H)) = Some (snd (PyProtoCopyToCProto A src m0)))"
  by (auto simp: load_Message_def Empty_def release_def alloc_def Let_def populate_def
      deref_def fresh_key_unused split: option.splits if_splits prod.splits)

lemma cast_copy_step:
  assumes "deref (native W) p = Some m"
  shows "\<exists>W'. GenericFastCppProtoCast p copy parent ic W =
             Inr (PyObject (fresh_key (python W)), W') \<and>
           python W' = (fresh_key (python W),
             \<lparr>wrapped = fresh_key (objects (native W)), keep_alive = None\<rparr>) # python W \<and>
           (\<forall>b. deref (native W') b =
              (if b = fresh_key (objects (native W)) then Some m else deref (native W) b))"
proof -
  let ?a = "fresh_key (objects (native W))"
  let ?H2 = "copy_object p ?a (New m) m (snd (alloc (New m) (native W)))"
  let ?W' = "snd (wrap ?a None (W\<lparr>native := ?H2\<rparr>))"
  have r: "GenericFastCppProtoCast p copy parent ic W =
      Inr (PyObject (fresh_key (python W)), ?W')"
    using assms by (simp add: GenericFastCppProtoCast_def wrap_def alloc_def Let_def)
  have q: "python ?W' = (fresh_key (python W), \<lparr>wrapped = ?a, keep_alive = None\<rparr>) # python W"
    by (simp add: wrap_def Let_def)
  have d: "\<forall>b. deref (native ?W') b = (if b = ?a then Some m else deref (native W) b)"
    by (simp add: wrap_def Let_def deref_copy_object deref_alloc fst_alloc CopyFrom_New)
  from r q d show ?thesis
    by blast
qed

lemma copyable_holder_cast_is_copy:
  "copyable_holder_cast G (Some p) policy parent V = G p copy parent True V"
  by (simp add: copyable_holder_cast_def cast_const_ref_def cast_impl_def)

lemma deref_populate: "deref (populate a m H) b = (if b = a then Some m else deref H b)"
  by (simp add: deref_def populate_def update_conv')

lemma trace_populate_alloc:
  "trace (populate a m (release None (snd (alloc m0 H)))) =
     trace H @ [Allocated (fresh_key (objects H)), Populated a]"
  by (simp add: populate_def release_def alloc_def Let_def)

lemma failed_population_keeps_object:
  assumes "\<not> is_none src"
    and "PyProtoGetCppMessagePointer A src = None"
    and "PyProtoDescriptorName A src = Some (descriptor_full_name T)"
    and "\<not> fst (PyProtoCopyToCProto A src (new_ProtoType T))"
  shows "\<exists>K. load A T src (c, H) =
            Inr (False, \<lparr>value_ptr = Some (fresh_key (objects H)),
                          owned = Some (fresh_key (objects H))\<rparr>, K) \<and>
           deref H (fresh_key (objects H)) = None \<and>
           deref K (fresh_key (objects H)) =
             Some (snd (PyProtoCopyToCProto A src (new_ProtoType T))) \<and>
           (owned c = None \<longrightarrow>
              trace K = trace H @ [Allocated (fresh_key (objects H)),
                                   Populated (fresh_key (objects H))])"
proof -
  let ?a = "fresh_key (objects H)"
  let ?r = "PyProtoCopyToCProto A src (new_ProtoType T)"
  let ?K = "populate ?a (snd ?r) (release (owned c) (snd (alloc (new_ProtoType T) H)))"
  have l: "load A T src (c, H) = Inr (False, \<lparr>value_ptr = Some ?a, owned = Some ?a\<rparr>, ?K)"
    using assms
    by (auto simp: load_def load_fallback_def alloc_def Let_def split: prod.splits)
  have n: "deref H ?a = None"
    by (simp add: deref_def fresh_key_unused)
  have d: "deref ?K ?a = Some (snd ?r)"
    by (simp add: deref_populate)
  have t: "owned c = None \<longrightarrow> trace ?K = trace H @ [Allocated ?a, Populated ?a]"
    by (simp add: trace_populate_alloc)
  from l n d t show ?thesis
    by (intro exI [of _ ?K] conjI)
qed

lemma failed_population_keeps_object_Message:
  assumes "\<not> is_none src"
    and "PyProtoGetCppMessagePointer A src = None"
    and "PyProtoDescriptorName A src = Some n"
    and "AllocateCProtoByName A n = Some m0"
    and "\<not> fst (PyProtoCopyToCProto A src m0)"
  shows "\<exists>K. load_Message A src (c, H) =
            (False, \<lparr>value_ptr = Some (fresh_key (objects H)),
                      owned = Some (fresh_key (objects H))\<rparr>, K) \<and>
           deref H (fresh_key (objects H)) = None \<and>
           deref K (fresh_key (objects H)) = Some (snd (PyProtoCopyToCProto A src m0)) \<and>
           (owned c = None \<longrightarrow>
              trace K = trace H @ [Allocated (fresh_key (objects H)),
                                   Populated (fresh_key (objects H))])"
proof -
  let ?a = "fresh_key (objects H)"
  let ?r = "PyProtoCopyToCProto A src m0"
  let ?K = "populate ?a (snd ?r) (release (owned c) (snd (alloc m0 H)))"
  have l: "load_Message A src (c, H) = (False, \<lparr>value_ptr = Some ?a, owned = Some ?a\<rparr>, ?K)"
    using assms
    by (auto simp: load_Message_def alloc_def Let_def split: prod.splits)
  have n: "deref H ?a = None"
    by (simp add: deref_def fresh_key_unused)
  have d: "deref ?K ?a = Some (snd ?r)"
    by (simp add: deref_populate)
  have t: "owned c = None \<longrightarrow> trace ?K = trace H @ [Allocated ?a, Populated ?a]"
    by (simp add: trace_populate_alloc)
  from l n d t show ?thesis
    by (intro exI [of _ ?K] conjI)
qed

lemma failed_before_allocation:
  assumes "\<not> is_none src"
    and "(\<exists>p m. PyProtoGetCppMessagePointer A src = Some p \<and> deref H p = Some m \<and>
                default_reflection T \<noteq> reflection m) \<or>
         PyProtoGetCppMessagePointer A src = None \<and>
         PyProtoDescriptorName A src \<noteq> Some (descriptor_full_name T)"
  shows "load A T src (c, H) = Inr (False, c, H)"
  using assms by (auto simp: load_def load_fallback_def split: option.splits)

lemma failed_before_allocation_Message:
  assumes "\<not> is_none src"
    and "PyProtoGetCppMessagePointer A src = None"
    and "PyProtoDescriptorName A src = None \<or>
         (\<exists>n. PyProtoDescriptorName A src = Some n \<and> AllocateCProtoByName A n = None)"
  shows "load_Message A src (c, H) =
           (False,
            c\<lparr>value_ptr := None,
              owned := (if PyProtoDescriptorName A src = None then owned c else None)\<rparr>,
            (if PyProtoDescriptorName A src = None then H else release (owned c) H))"
  using assms by (auto simp: load_Message_def)

lemma failed_load_only:
  "(load A T src (Empty, H) = Inr (False, c', H') \<longrightarrow>
      c' = Empty \<and> H' = H \<or>
      PyProtoGetCppMessagePointer A src = None \<and>
      PyProtoDescriptorName A src = Some (descriptor_full_name T) \<and>
      \<not> fst (PyProtoCopyToCProto A src (new_ProtoType T)) \<and>
      c' = \<lparr>value_ptr = Some (fresh_key (objects H)), owned = Some (fresh_key (objects H))\<rparr> \<and>
      deref H (fresh_key (objects H)) = None \<and>
      deref H' (fresh_key (objects H)) = Some (snd (PyProtoCopyToCProto A src (new_ProtoType T)))) \<and>
   (load_Message A src (Empty, H) = (False, c', H') \<longrightarrow>
      c' = Empty \<and> H' = H \<or>
      (\<exists>n m0. PyProtoGetCppMessagePointer A src = None \<and>
         PyProtoDescriptorName A src = Some n \<and> AllocateCProtoByName A n = Some m0 \<and>
         \<not> fst (PyProtoCopyToCProto A src m0) \<and>
         c' = \<lparr>value_ptr = Some (fresh_key (objects H)), owned = Some (fresh_key (objects H))\<rparr> \<and>
         deref H (fresh_key (objects H)) = None \<and>
         deref H' (fresh_key (objects H)) = Some (snd (PyProtoCopyToCProto A src m0))))"
proof (intro conjI impI)
  assume f: "load A T src (Empty, H) = Inr (False, c', H')"
  show "c' = Empty \<and> H' = H \<or>
      PyProtoGetCppMessagePointer A src = None \<and>
      PyProtoDescriptorName A src = Some (descriptor_full_name T) \<and>
      \<not> fst (PyProtoCopyToCProto A src (new_ProtoType T)) \<and>
      c' = \<lparr>value_ptr = Some (fresh_key (objects H)), owned = Some (fresh_key (objects H))\<rparr> \<and>
      deref H (fresh_key (objects H)) = None \<and>
      deref H' (fresh_key (objects H)) = Some (snd (PyProtoCopyToCProto A src (new_ProtoType T)))"
  proof (cases "PyProtoGetCppMessagePointer A src")
    case None
    with f have "load_fallback A T src (Empty, H) = (False, c', H')"
      by (simp add: load_def split: if_splits)
    from load_fallback_Empty [OF this] None show ?thesis
      by blast
  next
    case (Some p)
    with f have "c' = Empty \<and> H' = H"
      by (auto simp: load_def split: if_splits option.splits)
    then show ?thesis
      by blast
  qed
next
  assume f: "load_Message A src (Empty, H) = (False, c', H')"
  have "PyProtoGetCppMessagePointer A src = None \<or> c' = Empty \<and> H' = H"
    using f by (auto simp: load_Message_def Empty_def split: if_splits)
  with load_Message_Empty [OF f]
  show "c' = Empty \<and> H' = H \<or>
      (\<exists>n m0. PyProtoGetCppMessagePointer A src = None \<and>
         PyProtoDescriptorName A src = Some n \<and> AllocateCProtoByName A n = Some m0 \<and>
         \<not> fst (PyProtoCopyToCProto A src m0) \<and>
         c' = \<lparr>value_ptr = Some (fresh_key (objects H)), owned = Some (fresh_key (objects H))\<rparr> \<and>
         deref H (fresh_key (objects H)) = None \<and>
         deref H' (fresh_key (objects H)) = Some (snd (PyProtoCopyToCProto A src m0)))"
    by blast
qed

section \<open>The concrete setting, evaluated\<close>

lemma ex_failed_load:
  "load ex_api ex_T (PyObject 5) (Empty, ex_heap) =
     Inr (False, \<lparr>value_ptr = Some 3, owned = Some 3\<rparr>,
       \<lparr>objects = [(3, \<lparr>reflection = 7, full_name = ''pkg.A'', body = ''part''\<rparr>),
                   (1, \<lparr>reflection = 7, full_name = ''pkg.A'', body = ''x''\<rparr>),
                   (2, \<lparr>reflection = 8, full_name = ''pkg.A'', body = ''y''\<rparr>)],
        trace = [Allocated 3, Populated 3]\<rparr>)"
  by (simp add: load_def load_fallback_def is_none_def ex_api_def ex_T_def ex_heap_def
      Empty_def alloc_def release_def populate_def new_ProtoType_def)

lemma ex_failed_load_Message:
  "load_Message ex_api (PyObject 5) (Empty, ex_heap) =
     (False, \<lparr>value_ptr = Some 3, owned = Some 3\<rparr>,
       \<lparr>objects = [(3, \<lparr>reflection = 7, full_name = ''pkg.A'', body = ''part''\<rparr>),
                   (1, \<lparr>reflection = 7, full_name = ''pkg.A'', body = ''x''\<rparr>),
                   (2, \<lparr>reflection = 8, full_name = ''pkg.A'', body = ''y''\<rparr>)],
        trace = [Allocated 3, Populated 3]\<rparr>)"
  by (simp add: load_Message_def is_none_def ex_api_def ex_heap_def
      Empty_def alloc_def release_def populate_def)

lemma ex_loaded:
  "load ex_api ex_T (PyObject 3) (Empty, ex_heap) =
     Inr (True, \<lparr>value_ptr = Some 3, owned = Some 3\<rparr>,
       \<lparr>objects = [(3, \<lparr>reflection = 7, full_name = ''pkg.A'', body = ''data''\<rparr>),
                   (1, \<lparr>reflection = 7, full_name = ''pkg.A'', body = ''x''\<rparr>),
                   (2, \<lparr>reflection = 8, full_name = ''pkg.A'', body = ''y''\<rparr>)],
        trace = [Allocated 3, Populated 3]\<rparr>)"
  by (simp add: load_def load_fallback_def is_none_def ex_api_def ex_T_def ex_heap_def
      Empty_def alloc_def release_def populate_def new_ProtoType_def)

lemma ex_first:
  "as_unique_ptr (\<lparr>value_ptr = Some 3, owned = Some 3\<rparr>, ex_loaded_heap) =
     Inr (Some 3, \<lparr>value_ptr = Some 3, owned = None\<rparr>, ex_loaded_heap)"
  by (simp add: as_unique_ptr_def)

lemma ex_second:
  "as_unique_ptr (\<lparr>value_ptr = Some 3, owned = None\<rparr>, ex_loaded_heap) =
     Inr (Some 4, \<lparr>value_ptr = Some 3, owned = None\<rparr>,
       \<lparr>objects = [(4, \<lparr>reflection = 7, full_name = ''pkg.A'', body = ''data''\<rparr>),
                   (3, \<lparr>reflection = 7, full_name = ''pkg.A'', body = ''data''\<rparr>),
                   (1, \<lparr>reflection = 7, full_name = ''pkg.A'', body = ''x''\<rparr>),
                   (2, \<lparr>reflection = 8, full_name = ''pkg.A'', body = ''y''\<rparr>)],
        trace = [Allocated 3, Populated 3, Allocated 4, Copied 3 4]\<rparr>)"
  by (simp add: as_unique_ptr_def ex_loaded_heap_def deref_def alloc_def copy_object_def
      New_def CopyFrom_def)

lemma ex_shared_cast:
  "copyable_holder_cast GenericFastCppProtoCast (Some 1) reference PyNone ex_world =
     Inr (PyObject 1,
       \<lparr>native =
          \<lparr>objects = [(3, \<lparr>reflection = 7, full_name = ''pkg.A'', body = ''x''\<rparr>),
                      (1, \<lparr>reflection = 7, full_name = ''pkg.A'', body = ''x''\<rparr>),
                      (2, \<lparr>reflection = 8, full_name = ''pkg.A'', body = ''y''\<rparr>)],
           trace = [Allocated 3, Copied 1 3]\<rparr>,
        python = [(1, \<lparr>wrapped = 3, keep_alive = None\<rparr>)]\<rparr>)"
  by (simp add: copyable_holder_cast_def cast_const_ref_def cast_impl_def
      GenericFastCppProtoCast_def ex_world_def ex_heap_def deref_def alloc_def
      copy_object_def wrap_def New_def CopyFrom_def)

section \<open>Loading\<close>

text \<open>
  C1. The claim: whenever \<^verbatim>\<open>load\<close> returns false the caster is left Empty, also when
  the new object was allocated and \<^verbatim>\<open>PyProtoCopyToCProto\<close> failed on it. That last
  part does not hold: \<^verbatim>\<open>load\<close> returns what \<^verbatim>\<open>PyProtoCopyToCProto\<close> returns, with
  \<^verbatim>\<open>owned\<close> and \<^verbatim>\<open>value\<close> already set. In the concrete setting the Python object 5
  does not parse; the caster that was Empty holds object 3 afterwards, with what the
  parse left in it.
\<close>

theorem failed_load_keeps_object_counterexample:
  "load ex_api ex_T (PyObject 5) (Empty, ex_heap) =
     Inr (False, \<lparr>value_ptr = Some 3, owned = Some 3\<rparr>,
       \<lparr>objects = [(3, \<lparr>reflection = 7, full_name = ''pkg.A'', body = ''part''\<rparr>),
                   (1, \<lparr>reflection = 7, full_name = ''pkg.A'', body = ''x''\<rparr>),
                   (2, \<lparr>reflection = 8, full_name = ''pkg.A'', body = ''y''\<rparr>)],
        trace = [Allocated 3, Populated 3]\<rparr>) \<and>
   \<lparr>value_ptr = Some 3, owned = Some 3\<rparr> \<noteq> Empty"
  using ex_failed_load by (simp add: Empty_def)

text \<open>
  C1, amended. A \<^verbatim>\<open>load\<close> that fails before it allocates (the handle has a C++
  object behind it with another reflection, or none and a descriptor name that is absent
  or is not that of \<^verbatim>\<open>ProtoType\<close>) returns false and leaves the caster and the heap as
  they were; the loader of \<^verbatim>\<open>::google::protobuf::Message\<close>, when the name is absent or
  \<^verbatim>\<open>AllocateCProtoByName\<close> returns null, returns false with \<^verbatim>\<open>value\<close> null and
  nothing allocated. When the handle has no C++ object behind it, the new object is
  allocated and \<^verbatim>\<open>PyProtoCopyToCProto\<close> returns false on it, \<^verbatim>\<open>load\<close> returns false
  and keeps the object: \<^verbatim>\<open>owned\<close> and \<^verbatim>\<open>value\<close> both point to it, at an address that
  was free, and it holds what the parse made of it; from a caster that owned nothing the
  trace grows by that allocation and that population and by nothing else. Those are all
  the failures: from an Empty caster, a \<^verbatim>\<open>load\<close> that returns false has either left
  the caster Empty and the heap as it was, or kept the new object in this way. This
  holds for the loader of a \<^verbatim>\<open>ProtoType\<close> and for the loader of
  \<^verbatim>\<open>::google::protobuf::Message\<close>.
\<close>

theorem failed_load_state:
  "(load A T src (Empty, H) = Inr (False, c', H') \<longrightarrow>
      c' = Empty \<and> H' = H \<or>
      PyProtoGetCppMessagePointer A src = None \<and>
      PyProtoDescriptorName A src = Some (descriptor_full_name T) \<and>
      \<not> fst (PyProtoCopyToCProto A src (new_ProtoType T)) \<and>
      c' = \<lparr>value_ptr = Some (fresh_key (objects H)), owned = Some (fresh_key (objects H))\<rparr> \<and>
      deref H (fresh_key (objects H)) = None \<and>
      deref H' (fresh_key (objects H)) = Some (snd (PyProtoCopyToCProto A src (new_ProtoType T)))) \<and>
   (load_Message A src (Empty, H) = (False, c', H') \<longrightarrow>
      c' = Empty \<and> H' = H \<or>
      (\<exists>n m0. PyProtoGetCppMessagePointer A src = None \<and>
         PyProtoDescriptorName A src = Some n \<and> AllocateCProtoByName A n = Some m0 \<and>
         \<not> fst (PyProtoCopyToCProto A src m0) \<and>
         c' = \<lparr>value_ptr = Some (fresh_key (objects H)), owned = Some (fresh_key (objects H))\<rparr> \<and>
         deref H (fresh_key (objects H)) = None \<and>
         deref H' (fresh_key (objects H)) = Some (snd (PyProtoCopyToCProto A src m0)))) \<and>
   (\<not> is_none src \<and> PyProtoGetCppMessagePointer A src = None \<and>
    PyProtoDescriptorName A src = Some (descriptor_full_name T) \<and>
    \<not> fst (PyProtoCopyToCProto A src (new_ProtoType T)) \<longrightarrow>
      (\<exists>K. load A T src (c, H) =
              Inr (False, \<lparr>value_ptr = Some (fresh_key (objects H)),
                            owned = Some (fresh_key (objects H))\<rparr>, K) \<and>
           deref H (fresh_key (objects H)) = None \<and>
           deref K (fresh_key (objects H)) =
             Some (snd (PyProtoCopyToCProto A src (new_ProtoType T))) \<and>
           (owned c = None \<longrightarrow>
              trace K = trace H @ [Allocated (fresh_key (objects H)),
                                   Populated (fresh_key (objects H))]))) \<and>
   (\<not> is_none src \<and> PyProtoGetCppMessagePointer A src = None \<and>
    PyProtoDescriptorName A src = Some n \<and> AllocateCProtoByName A n = Some fresh \<and>
    \<not> fst (PyProtoCopyToCProto A src fresh) \<longrightarrow>
      (\<exists>K. load_Message A src (c, H) =
              (False, \<lparr>value_ptr = Some (fresh_key (objects H)),
                        owned = Some (fresh_key (objects H))\<rparr>, K) \<and>
           deref H (fresh_key (objects H)) = None \<and>
           deref K (fresh_key (objects H)) = Some (snd (PyProtoCopyToCProto A src fresh)) \<and>
           (owned c = None \<longrightarrow>
              trace K = trace H @ [Allocated (fresh_key (objects H)),
                                   Populated (fresh_key (objects H))]))) \<and>
   (\<not> is_none src \<and>
    ((\<exists>p m. PyProtoGetCppMessagePointer A src = Some p \<and> deref H p = Some m \<and>
            default_reflection T \<noteq> reflection m) \<or>
     PyProtoGetCppMessagePointer A src = None \<and>
     PyProtoDescriptorName A src \<noteq> Some (descriptor_full_name T)) \<longrightarrow>
      load A T src (c, H) = Inr (False, c, H)) \<and>
   (\<not> is_none src \<and> PyProtoGetCppMessagePointer A src = None \<and>
    (PyProtoDescriptorName A src = None \<or>
     (\<exists>n. PyProtoDescriptorName A src = Some n \<and> AllocateCProtoByName A n = None)) \<longrightarrow>
      load_Message A src (c, H) =
        (False,
         c\<lparr>value_ptr := None,
           owned := (if PyProtoDescriptorName A src = None then owned c else None)\<rparr>,
         (if PyProtoDescriptorName A src = None then H else release (owned c) H)))"
  (is "?only \<and> ?only_Message \<and> ?kept \<and> ?kept_Message \<and> ?early \<and> ?early_Message")
proof -
  note b = failed_load_only [of A T src H c' H']
  from b have b1: ?only
    by (rule conjunct1)
  from b have b2: ?only_Message
    by (rule conjunct2)
  have b3: ?kept
    by (intro impI, elim conjE, rule failed_population_keeps_object)
  have b4: ?kept_Message
    by (intro impI, elim conjE, rule failed_population_keeps_object_Message)
  have b5: ?early
    by (intro impI, elim conjE, rule failed_before_allocation)
  have b6: ?early_Message
    by (intro impI, elim conjE, rule failed_before_allocation_Message)
  from b1 b2 b3 b4 b5 b6 show ?thesis
    by (intro conjI)
qed

theorem failed_load_state_witness:
  "load ex_api ex_T (PyObject 5) (Empty, ex_heap) =
     Inr (False, \<lparr>value_ptr = Some 3, owned = Some 3\<rparr>,
       \<lparr>objects = [(3, \<lparr>reflection = 7, full_name = ''pkg.A'', body = ''part''\<rparr>),
                   (1, \<lparr>reflection = 7, full_name = ''pkg.A'', body = ''x''\<rparr>),
                   (2, \<lparr>reflection = 8, full_name = ''pkg.A'', body = ''y''\<rparr>)],
        trace = [Allocated 3, Populated 3]\<rparr>) \<and>
   load_Message ex_api (PyObject 5) (Empty, ex_heap) =
     (False, \<lparr>value_ptr = Some 3, owned = Some 3\<rparr>,
       \<lparr>objects = [(3, \<lparr>reflection = 7, full_name = ''pkg.A'', body = ''part''\<rparr>),
                   (1, \<lparr>reflection = 7, full_name = ''pkg.A'', body = ''x''\<rparr>),
                   (2, \<lparr>reflection = 8, full_name = ''pkg.A'', body = ''y''\<rparr>)],
        trace = [Allocated 3, Populated 3]\<rparr>) \<and>
   \<not> is_none (PyObject 5) \<and>
   PyProtoGetCppMessagePointer ex_api (PyObject 5) = None \<and>
   PyProtoDescriptorName ex_api (PyObject 5) = Some (descriptor_full_name ex_T) \<and>
   \<not> fst (PyProtoCopyToCProto ex_api (PyObject 5) (new_ProtoType ex_T)) \<and>
   (\<exists>n m0. PyProtoDescriptorName ex_api (PyObject 5) = Some n \<and>
      AllocateCProtoByName ex_api n = Some m0 \<and>
      \<not> fst (PyProtoCopyToCProto ex_api (PyObject 5) m0)) \<and>
   fresh_key (objects ex_heap) = 3 \<and>
   (\<exists>K. load ex_api ex_T (PyObject 5) (Empty, ex_heap) =
           Inr (False, \<lparr>value_ptr = Some 3, owned = Some 3\<rparr>, K) \<and>
        deref K 3 = Some (snd (PyProtoCopyToCProto ex_api (PyObject 5) (new_ProtoType ex_T))) \<and>
        trace K = trace ex_heap @ [Allocated 3, Populated 3]) \<and>
   (\<exists>K. load_Message ex_api (PyObject 5) (Empty, ex_heap) =
           (False, \<lparr>value_ptr = Some 3, owned = Some 3\<rparr>, K) \<and>
        trace K = trace ex_heap @ [Allocated 3, Populated 3]) \<and>
   load ex_api ex_T (PyObject 4) (Empty, ex_heap) = Inr (False, Empty, ex_heap) \<and>
   load_Message ex_api (PyObject 6) (Empty, ex_heap) = (False, Empty, ex_heap)"
proof -
  note f = ex_failed_load
  note g = ex_failed_load_Message
  have ne: "\<lparr>value_ptr = Some 3, owned = Some 3\<rparr> \<noteq> Empty"
    by (simp add: Empty_def)
  have o: "owned Empty = None"
    by (simp add: Empty_def)
  have h1: "\<not> is_none (PyObject 5)"
    by (simp add: is_none_def)
  have h2: "PyProtoDescriptorName ex_api (PyObject 5) = Some ''pkg.A''"
    by (simp add: ex_api_def)
  have h3: "AllocateCProtoByName ex_api ''pkg.A'' =
      Some \<lparr>reflection = 7, full_name = ''pkg.A'', body = []\<rparr>"
    by (simp add: ex_api_def)
  have h4: "\<not> fst (PyProtoCopyToCProto ex_api (PyObject 5)
      \<lparr>reflection = 7, full_name = ''pkg.A'', body = []\<rparr>)"
    by (simp add: ex_api_def)
  note t = failed_load_state
    [where A = ex_api and T = ex_T and src = "PyObject 5" and H = ex_heap and c = Empty
       and n = "''pkg.A''" and fresh = "\<lparr>reflection = 7, full_name = ''pkg.A'', body = []\<rparr>"]
  from t [THEN conjunct1, rule_format, OF f] ne
  have a: "PyProtoGetCppMessagePointer ex_api (PyObject 5) = None \<and>
      PyProtoDescriptorName ex_api (PyObject 5) = Some (descriptor_full_name ex_T) \<and>
      \<not> fst (PyProtoCopyToCProto ex_api (PyObject 5) (new_ProtoType ex_T)) \<and>
      \<lparr>value_ptr = Some 3, owned = Some 3\<rparr> =
        \<lparr>value_ptr = Some (fresh_key (objects ex_heap)), owned = Some (fresh_key (objects ex_heap))\<rparr>"
    by blast
  from t [THEN conjunct2, THEN conjunct1, rule_format, OF g] ne
  have b: "\<exists>n m0. PyProtoDescriptorName ex_api (PyObject 5) = Some n \<and>
      AllocateCProtoByName ex_api n = Some m0 \<and>
      \<not> fst (PyProtoCopyToCProto ex_api (PyObject 5) m0)"
    by blast
  from a have c: "fresh_key (objects ex_heap) = 3"
    by simp
  from h1 a
  have pre: "\<not> is_none (PyObject 5) \<and> PyProtoGetCppMessagePointer ex_api (PyObject 5) = None \<and>
      PyProtoDescriptorName ex_api (PyObject 5) = Some (descriptor_full_name ex_T) \<and>
      \<not> fst (PyProtoCopyToCProto ex_api (PyObject 5) (new_ProtoType ex_T))"
    by simp
  from t [THEN conjunct2, THEN conjunct2, THEN conjunct1, rule_format, OF pre]
  obtain K where
    "load ex_api ex_T (PyObject 5) (Empty, ex_heap) =
       Inr (False, \<lparr>value_ptr = Some (fresh_key (objects ex_heap)),
                     owned = Some (fresh_key (objects ex_heap))\<rparr>, K)"
    "deref K (fresh_key (objects ex_heap)) =
       Some (snd (PyProtoCopyToCProto ex_api (PyObject 5) (new_ProtoType ex_T)))"
    "owned Empty = None \<longrightarrow>
       trace K = trace ex_heap @ [Allocated (fresh_key (objects ex_heap)),
                                  Populated (fresh_key (objects ex_heap))]"
    by (elim exE conjE) (rule that)
  with o c
  have "load ex_api ex_T (PyObject 5) (Empty, ex_heap) =
           Inr (False, \<lparr>value_ptr = Some 3, owned = Some 3\<rparr>, K) \<and>
        deref K 3 = Some (snd (PyProtoCopyToCProto ex_api (PyObject 5) (new_ProtoType ex_T))) \<and>
        trace K = trace ex_heap @ [Allocated 3, Populated 3]"
    by simp
  then have d: "\<exists>K. load ex_api ex_T (PyObject 5) (Empty, ex_heap) =
           Inr (False, \<lparr>value_ptr = Some 3, owned = Some 3\<rparr>, K) \<and>
        deref K 3 = Some (snd (PyProtoCopyToCProto ex_api (PyObject 5) (new_ProtoType ex_T))) \<and>
        trace K = trace ex_heap @ [Allocated 3, Populated 3]"
    by (rule exI)
  from h1 a h2 h3 h4
  have pre2: "\<not> is_none (PyObject 5) \<and> PyProtoGetCppMessagePointer ex_api (PyObject 5) = None \<and>
      PyProtoDescriptorName ex_api (PyObject 5) = Some ''pkg.A'' \<and>
      AllocateCProtoByName ex_api ''pkg.A'' =
        Some \<lparr>reflection = 7, full_name = ''pkg.A'', body = []\<rparr> \<and>
      \<not> fst (PyProtoCopyToCProto ex_api (PyObject 5)
        \<lparr>reflection = 7, full_name = ''pkg.A'', body = []\<rparr>)"
    by simp
  from t [THEN conjunct2, THEN conjunct2, THEN conjunct2, THEN conjunct1, rule_format, OF pre2]
  obtain L where
    "load_Message ex_api (PyObject 5) (Empty, ex_heap) =
       (False, \<lparr>value_ptr = Some (fresh_key (objects ex_heap)),
                 owned = Some (fresh_key (objects ex_heap))\<rparr>, L)"
    "owned Empty = None \<longrightarrow>
       trace L = trace ex_heap @ [Allocated (fresh_key (objects ex_heap)),
                                  Populated (fresh_key (objects ex_heap))]"
    by (elim exE conjE) (rule that)
  with o c
  have "load_Message ex_api (PyObject 5) (Empty, ex_heap) =
           (False, \<lparr>value_ptr = Some 3, owned = Some 3\<rparr>, L) \<and>
        trace L = trace ex_heap @ [Allocated 3, Populated 3]"
    by simp
  then have e: "\<exists>K. load_Message ex_api (PyObject 5) (Empty, ex_heap) =
           (False, \<lparr>value_ptr = Some 3, owned = Some 3\<rparr>, K) \<and>
        trace K = trace ex_heap @ [Allocated 3, Populated 3]"
    by (rule exI)
  have k1: "\<not> is_none (PyObject 4)"
    by (simp add: is_none_def)
  have k2: "PyProtoGetCppMessagePointer ex_api (PyObject 4) = None \<and>
      PyProtoDescriptorName ex_api (PyObject 4) \<noteq> Some (descriptor_full_name ex_T)"
    by (simp add: ex_api_def ex_T_def)
  from k1 k2
  have pre3: "\<not> is_none (PyObject 4) \<and>
      ((\<exists>p m. PyProtoGetCppMessagePointer ex_api (PyObject 4) = Some p \<and>
          deref ex_heap p = Some m \<and> default_reflection ex_T \<noteq> reflection m) \<or>
       PyProtoGetCppMessagePointer ex_api (PyObject 4) = None \<and>
       PyProtoDescriptorName ex_api (PyObject 4) \<noteq> Some (descriptor_full_name ex_T))"
    by simp
  have m: "load ex_api ex_T (PyObject 4) (Empty, ex_heap) = Inr (False, Empty, ex_heap)"
    by (rule failed_load_state
      [where A = ex_api and T = ex_T and src = "PyObject 4" and H = ex_heap and c = Empty,
       THEN conjunct2, THEN conjunct2, THEN conjunct2, THEN conjunct2, THEN conjunct1,
       rule_format, OF pre3])
  have q1: "\<not> is_none (PyObject 6)"
    by (simp add: is_none_def)
  have q2: "PyProtoGetCppMessagePointer ex_api (PyObject 6) = None"
    by (simp add: ex_api_def)
  have q3: "PyProtoDescriptorName ex_api (PyObject 6) = Some ''pkg.Unregistered''"
    by (simp add: ex_api_def)
  have q4: "AllocateCProtoByName ex_api ''pkg.Unregistered'' = None"
    by (simp add: ex_api_def)
  from q1 q2 q3 q4
  have pre4: "\<not> is_none (PyObject 6) \<and> PyProtoGetCppMessagePointer ex_api (PyObject 6) = None \<and>
      (PyProtoDescriptorName ex_api (PyObject 6) = None \<or>
       (\<exists>n. PyProtoDescriptorName ex_api (PyObject 6) = Some n \<and>
          AllocateCProtoByName ex_api n = None))"
    by simp
  from failed_load_state
    [where A = ex_api and src = "PyObject 6" and H = ex_heap and c = Empty,
     THEN conjunct2, THEN conjunct2, THEN conjunct2, THEN conjunct2, THEN conjunct2,
     rule_format, OF pre4] q3
  have r: "load_Message ex_api (PyObject 6) (Empty, ex_heap) = (False, Empty, ex_heap)"
    by (simp add: Empty_def release_def)
  from a have a1: "PyProtoGetCppMessagePointer ex_api (PyObject 5) = None"
    and a2: "PyProtoDescriptorName ex_api (PyObject 5) = Some (descriptor_full_name ex_T)"
    and a3: "\<not> fst (PyProtoCopyToCProto ex_api (PyObject 5) (new_ProtoType ex_T))"
    by simp_all
  from f g h1 a1 a2 a3 b c d e m r show ?thesis
    by (intro conjI)
qed

text \<open>
  C2. The claim: when the handle has a C++ object behind it whose reflection is not that
  of \<^verbatim>\<open>ProtoType\<close>, \<^verbatim>\<open>load\<close> goes on to the serialize-and-parse path. It does not:
  line 106 returns false. In the concrete setting the Python object 2 wraps object 2,
  of reflection 8 where 7 is expected; \<^verbatim>\<open>load\<close> returns false and changes nothing,
  where the fallback path on the same handle would have returned true.
\<close>

theorem reflection_mismatch_no_fallback_counterexample:
  "PyProtoGetCppMessagePointer ex_api (PyObject 2) = Some 2 \<and>
   map_option reflection (deref ex_heap 2) = Some 8 \<and> default_reflection ex_T = 7 \<and>
   load ex_api ex_T (PyObject 2) (Empty, ex_heap) = Inr (False, Empty, ex_heap) \<and>
   fst (load_fallback ex_api ex_T (PyObject 2) (Empty, ex_heap)) \<and>
   load ex_api ex_T (PyObject 2) (Empty, ex_heap) \<noteq>
     Inr (load_fallback ex_api ex_T (PyObject 2) (Empty, ex_heap))"
  by (simp add: load_def load_fallback_def is_none_def ex_api_def ex_T_def ex_heap_def
      deref_def Empty_def alloc_def release_def populate_def new_ProtoType_def)

text \<open>
  C2, amended. When the handle is not None and has a C++ object behind it whose
  reflection is not that of \<^verbatim>\<open>ProtoType\<close>, \<^verbatim>\<open>load\<close> returns false at once: the
  caster and the heap are as they were, nothing is allocated, and neither the descriptor
  name nor \<^verbatim>\<open>PyProtoCopyToCProto\<close> has a part in the result.
\<close>

theorem reflection_mismatch_returns_false:
  assumes "\<not> is_none src"
    and "PyProtoGetCppMessagePointer A src = Some p"
    and "deref H p = Some m"
    and "default_reflection T \<noteq> reflection m"
  shows "load A T src (c, H) = Inr (False, c, H) \<and>
         load (A\<lparr>PyProtoDescriptorName := d, PyProtoCopyToCProto := f\<rparr>) T src (c, H) =
           load A T src (c, H)"
  using assms by (simp add: load_def)

theorem reflection_mismatch_returns_false_witness:
  "\<not> is_none (PyObject 2) \<and> PyProtoGetCppMessagePointer ex_api (PyObject 2) = Some 2 \<and>
   deref ex_heap 2 = Some \<lparr>reflection = 8, full_name = ''pkg.A'', body = ''y''\<rparr> \<and>
   default_reflection ex_T = 7 \<and>
   load ex_api ex_T (PyObject 2) (Empty, ex_heap) = Inr (False, Empty, ex_heap)"
proof -
  have h1: "\<not> is_none (PyObject 2)"
    by (simp add: is_none_def)
  have h2: "PyProtoGetCppMessagePointer ex_api (PyObject 2) = Some 2"
    by (simp add: ex_api_def)
  have h3: "deref ex_heap 2 = Some \<lparr>reflection = 8, full_name = ''pkg.A'', body = ''y''\<rparr>"
    by (simp add: deref_def ex_heap_def)
  have h4: "default_reflection ex_T = 7"
    by (simp add: ex_T_def)
  have h5: "default_reflection ex_T \<noteq>
      reflection \<lparr>reflection = 8, full_name = ''pkg.A'', body = ''y''\<rparr>"
    by (simp add: ex_T_def)
  have "load ex_api ex_T (PyObject 2) (Empty, ex_heap) = Inr (False, Empty, ex_heap)"
    by (rule reflection_mismatch_returns_false [OF h1 h2 h3 h5, THEN conjunct1])
  with h1 h2 h3 h4 show ?thesis
    by simp
qed

text \<open>
  C5. Null round trip: loading None sets \<^verbatim>\<open>value\<close> to null and returns true, in both
  loaders; \<^verbatim>\<open>owned\<close> is not written, so a caster that owned nothing is Empty
  afterwards. Casting a null pointer gives None whatever the policy and whether the
  source is const, in \<^verbatim>\<open>cast_impl\<close> and in the casts that call it.
\<close>

theorem null_round_trip:
  assumes "is_none src"
  shows "load A T src (c, H) = Inr (True, c\<lparr>value_ptr := None\<rparr>, H) \<and>
         load_Message A src (c, H) = (True, c\<lparr>value_ptr := None\<rparr>, H) \<and>
         (owned c = None \<longrightarrow>
            load A T src (c, H) = Inr (True, Empty, H) \<and>
            load_Message A src (c, H) = (True, Empty, H)) \<and>
         cast_impl G None policy parent is_const W = Inr (PyNone, W) \<and>
         cast_const_ptr G None policy parent W = Inr (PyNone, W) \<and>
         copyable_holder_cast G None policy parent W = Inr (PyNone, W)"
  using assms
  by (simp add: load_def load_Message_def cast_impl_def cast_const_ptr_def
      copyable_holder_cast_def Empty_def)

theorem null_round_trip_witness:
  "is_none PyNone \<and> owned Empty = None \<and>
   load ex_api ex_T PyNone (Empty, ex_heap) = Inr (True, Empty, ex_heap) \<and>
   load_Message ex_api PyNone (Empty, ex_heap) = (True, Empty, ex_heap) \<and>
   cast_impl GenericFastCppProtoCast None reference PyNone True ex_world = Inr (PyNone, ex_world)"
proof -
  have h1: "is_none PyNone"
    by (simp add: is_none_def)
  have h2: "owned Empty = None"
    by (simp add: Empty_def)
  from null_round_trip [OF h1, of ex_api ex_T Empty ex_heap GenericFastCppProtoCast reference PyNone True ex_world]
    h1 h2 show ?thesis
    by (simp add: Empty_def)
qed



text \<open>
  C7. The claim: when the handle is not backed by a compatible C++ object and its
  descriptor name is absent or is not that of \<^verbatim>\<open>ProtoType\<close>, \<^verbatim>\<open>load\<close> returns false
  and leaves the state Empty. It returns false, but lines 106 and 124 return before any
  write to the caster, and \<^verbatim>\<open>value\<close> has no initializer (line 142): a caster that was
  default-initialized, as \<^verbatim>\<open>Base base;\<close> of lines 370 and 422 is, has whatever
  \<^verbatim>\<open>value\<close> it was created with, before and after. In the concrete setting the Python
  object 4 is a \<^verbatim>\<open>pkg.B\<close>; a caster that owns nothing and whose \<^verbatim>\<open>value\<close> is 42 is
  not Empty after the failed \<^verbatim>\<open>load\<close>.
\<close>

theorem exact_type_mismatch_not_reset_counterexample:
  "\<not> is_none (PyObject 4) \<and> PyProtoGetCppMessagePointer ex_api (PyObject 4) = None \<and>
   PyProtoDescriptorName ex_api (PyObject 4) = Some ''pkg.B'' \<and>
   descriptor_full_name ex_T = ''pkg.A'' \<and>
   load ex_api ex_T (PyObject 4) (\<lparr>value_ptr = Some 42, owned = None\<rparr>, ex_heap) =
     Inr (False, \<lparr>value_ptr = Some 42, owned = None\<rparr>, ex_heap) \<and>
   \<lparr>value_ptr = Some 42, owned = None\<rparr> \<noteq> Empty"
  by (simp add: load_def load_fallback_def is_none_def ex_api_def ex_T_def Empty_def)

text \<open>
  C7, amended. When the handle is not None, is not backed by a C++ object with the
  reflection of \<^verbatim>\<open>ProtoType\<close> (no C++ object behind it, or one with another
  reflection), and its descriptor name is absent or is not the full name of
  \<^verbatim>\<open>ProtoType\<close>'s descriptor, then \<^verbatim>\<open>load\<close> returns false, raises nothing and
  leaves the caster and the heap as they were: the state is Empty afterwards when it
  was Empty before, and only then.
\<close>

theorem exact_type_mismatch_rejected:
  assumes "\<not> is_none src"
    and "PyProtoGetCppMessagePointer A src = None \<or>
         (\<exists>p m. PyProtoGetCppMessagePointer A src = Some p \<and> deref H p = Some m \<and>
                reflection m \<noteq> default_reflection T)"
    and "PyProtoDescriptorName A src \<noteq> Some (descriptor_full_name T)"
  shows "load A T src (c, H) = Inr (False, c, H) \<and>
         load A T src (Empty, H) = Inr (False, Empty, H)"
  using assms by (auto simp: load_def load_fallback_def split: option.splits)

theorem exact_type_mismatch_rejected_witness:
  "\<not> is_none (PyObject 4) \<and> PyProtoGetCppMessagePointer ex_api (PyObject 4) = None \<and>
   PyProtoDescriptorName ex_api (PyObject 4) = Some ''pkg.B'' \<and>
   descriptor_full_name ex_T = ''pkg.A'' \<and>
   load ex_api ex_T (PyObject 4) (Empty, ex_heap) = Inr (False, Empty, ex_heap)"
  using exact_type_mismatch_rejected [of "PyObject 4" ex_api ex_heap ex_T Empty]
  by (simp add: is_none_def ex_api_def ex_T_def)

text \<open>
  C8. Abstract-base unknown-schema rejection: when the handle is not None, has no C++
  object behind it, and \<^verbatim>\<open>AllocateCProtoByName\<close> returns null for its descriptor
  name, then the loader for \<^verbatim>\<open>::google::protobuf::Message\<close> returns false. It
  allocates and populates nothing: the heap it returns is the one it was given, but for
  the object that \<^verbatim>\<open>owned\<close> held before, and the result does not depend on
  \<^verbatim>\<open>PyProtoCopyToCProto\<close>.
\<close>

theorem abstract_base_unknown_schema_rejected:
  assumes "\<not> is_none src"
    and "PyProtoGetCppMessagePointer A src = None"
    and "PyProtoDescriptorName A src = Some n"
    and "AllocateCProtoByName A n = None"
  shows "load_Message A src (c, H) =
           (False, c\<lparr>value_ptr := None, owned := None\<rparr>, release (owned c) H) \<and>
         load_Message A src (Empty, H) = (False, Empty, H) \<and>
         load_Message (A\<lparr>PyProtoCopyToCProto := f\<rparr>) src (c, H) = load_Message A src (c, H)"
  using assms by (simp add: load_Message_def Empty_def release_def)

theorem abstract_base_unknown_schema_rejected_witness:
  "\<not> is_none (PyObject 6) \<and> PyProtoGetCppMessagePointer ex_api (PyObject 6) = None \<and>
   PyProtoDescriptorName ex_api (PyObject 6) = Some ''pkg.Unregistered'' \<and>
   AllocateCProtoByName ex_api ''pkg.Unregistered'' = None \<and>
   load_Message ex_api (PyObject 6) (Empty, ex_heap) = (False, Empty, ex_heap)"
proof -
  have h1: "\<not> is_none (PyObject 6)"
    by (simp add: is_none_def)
  have h2: "PyProtoGetCppMessagePointer ex_api (PyObject 6) = None"
    by (simp add: ex_api_def)
  have h3: "PyProtoDescriptorName ex_api (PyObject 6) = Some ''pkg.Unregistered''"
    by (simp add: ex_api_def)
  have h4: "AllocateCProtoByName ex_api ''pkg.Unregistered'' = None"
    by (simp add: ex_api_def)
  have "load_Message ex_api (PyObject 6) (Empty, ex_heap) = (False, Empty, ex_heap)"
    by (rule abstract_base_unknown_schema_rejected
          [OF h1 h2 h3 h4, THEN conjunct2, THEN conjunct1])
  with h1 h2 h3 h4 show ?thesis
    by simp
qed

text \<open>
  C10. The loader for \<^verbatim>\<open>::google::protobuf::Message\<close> checks no reflection: when the
  handle is not None and has a C++ object behind it, it returns true and \<^verbatim>\<open>value\<close>
  points to that object, whatever the object is. The loader of a \<^verbatim>\<open>ProtoType\<close>
  returns false on the same handle when the object's reflection is not that of
  \<^verbatim>\<open>ProtoType\<close>.
\<close>

theorem abstract_base_borrows_unconditionally:
  assumes "\<not> is_none src"
    and "PyProtoGetCppMessagePointer A src = Some p"
  shows "load_Message A src (c, H) = (True, c\<lparr>value_ptr := Some p\<rparr>, H) \<and>
         (\<forall>m. deref H p = Some m \<and> default_reflection T \<noteq> reflection m \<longrightarrow>
              load A T src (c, H) = Inr (False, c, H))"
  using assms by (simp add: load_Message_def load_def)

theorem abstract_base_borrows_unconditionally_witness:
  "\<not> is_none (PyObject 2) \<and> PyProtoGetCppMessagePointer ex_api (PyObject 2) = Some 2 \<and>
   deref ex_heap 2 = Some \<lparr>reflection = 8, full_name = ''pkg.A'', body = ''y''\<rparr> \<and>
   default_reflection ex_T = 7 \<and>
   load_Message ex_api (PyObject 2) (Empty, ex_heap) =
     (True, \<lparr>value_ptr = Some 2, owned = None\<rparr>, ex_heap) \<and>
   load ex_api ex_T (PyObject 2) (Empty, ex_heap) = Inr (False, Empty, ex_heap)"
proof -
  have h1: "\<not> is_none (PyObject 2)"
    by (simp add: is_none_def)
  have h2: "PyProtoGetCppMessagePointer ex_api (PyObject 2) = Some 2"
    by (simp add: ex_api_def)
  have h3: "deref ex_heap 2 = Some \<lparr>reflection = 8, full_name = ''pkg.A'', body = ''y''\<rparr>"
    by (simp add: deref_def ex_heap_def)
  have h4: "default_reflection ex_T = 7"
    by (simp add: ex_T_def)
  note both = abstract_base_borrows_unconditionally [OF h1 h2, of Empty ex_heap ex_T]
  from both have a: "load_Message ex_api (PyObject 2) (Empty, ex_heap) =
      (True, \<lparr>value_ptr = Some 2, owned = None\<rparr>, ex_heap)"
    by (simp add: Empty_def)
  from both h3 h4 have b: "load ex_api ex_T (PyObject 2) (Empty, ex_heap) = Inr (False, Empty, ex_heap)"
    by simp
  from h1 h2 h3 h4 a b show ?thesis
    by simp
qed

section \<open>Promotion to an owned copy\<close>

text \<open>
  C4. The claim: a second call of \<^verbatim>\<open>as_unique_ptr\<close> returns the same owned copy as
  the first. It does not: \<^verbatim>\<open>std::move(owned)\<close> hands the copy to the caller and
  leaves \<^verbatim>\<open>owned\<close> null, so the second call allocates again. In the concrete
  setting the caster has loaded the Python object 3 into object 3, which it owns; the
  first call returns object 3, the second a new object 4.
\<close>

theorem as_unique_ptr_twice_counterexample:
  "load ex_api ex_T (PyObject 3) (Empty, ex_heap) =
     Inr (True, \<lparr>value_ptr = Some 3, owned = Some 3\<rparr>, ex_loaded_heap) \<and>
   as_unique_ptr (\<lparr>value_ptr = Some 3, owned = Some 3\<rparr>, ex_loaded_heap) =
     Inr (Some 3, \<lparr>value_ptr = Some 3, owned = None\<rparr>, ex_loaded_heap) \<and>
   as_unique_ptr (\<lparr>value_ptr = Some 3, owned = None\<rparr>, ex_loaded_heap) =
     Inr (Some 4, \<lparr>value_ptr = Some 3, owned = None\<rparr>,
       \<lparr>objects = [(4, \<lparr>reflection = 7, full_name = ''pkg.A'', body = ''data''\<rparr>),
                   (3, \<lparr>reflection = 7, full_name = ''pkg.A'', body = ''data''\<rparr>),
                   (1, \<lparr>reflection = 7, full_name = ''pkg.A'', body = ''x''\<rparr>),
                   (2, \<lparr>reflection = 8, full_name = ''pkg.A'', body = ''y''\<rparr>)],
        trace = [Allocated 3, Populated 3, Allocated 4, Copied 3 4]\<rparr>) \<and>
   as_unique_ptr_twice (\<lparr>value_ptr = Some 3, owned = Some 3\<rparr>, ex_loaded_heap) =
     Inr (Some 3, Some 4, \<lparr>value_ptr = Some 3, owned = None\<rparr>,
       \<lparr>objects = [(4, \<lparr>reflection = 7, full_name = ''pkg.A'', body = ''data''\<rparr>),
                   (3, \<lparr>reflection = 7, full_name = ''pkg.A'', body = ''data''\<rparr>),
                   (1, \<lparr>reflection = 7, full_name = ''pkg.A'', body = ''x''\<rparr>),
                   (2, \<lparr>reflection = 8, full_name = ''pkg.A'', body = ''y''\<rparr>)],
        trace = [Allocated 3, Populated 3, Allocated 4, Copied 3 4]\<rparr>) \<and>
   Some (4::nat) \<noteq> Some 3"
  using ex_loaded ex_first ex_second
  by (simp add: ex_loaded_heap_def as_unique_ptr_twice_def)

text \<open>
  C4, amended. \<^verbatim>\<open>as_unique_ptr\<close> hands the owned copy over. When the caster has an
  owned copy (and \<^verbatim>\<open>value\<close> is not null), the call returns that very copy and
  allocates nothing: the copy is never dropped for a copy of the borrowed pointer.
  Every call that returns an object leaves \<^verbatim>\<open>owned\<close> null and \<^verbatim>\<open>value\<close> as it
  was. So a second call, made while the object that \<^verbatim>\<open>value\<close> points to and the
  object returned first are alive, returns another object: a new allocation at an
  address that was free, with a copy of the value behind \<^verbatim>\<open>value\<close>, and the object
  returned first is as it was.
\<close>

theorem as_unique_ptr_hands_over:
  "(value_ptr c = Some v \<and> owned c = Some a \<longrightarrow>
      as_unique_ptr (c, H) = Inr (Some a, c\<lparr>owned := None\<rparr>, H)) \<and>
   (as_unique_ptr (c, H) = Inr (Some r, c', H') \<longrightarrow> c' = c\<lparr>owned := None\<rparr>) \<and>
   (as_unique_ptr (c, H) = Inr (Some a1, c1, H1) \<and> deref H1 a1 \<noteq> None \<and>
    value_ptr c = Some v \<and> deref H1 v = Some m \<longrightarrow>
      (\<exists>a2 H2. as_unique_ptr (c1, H1) = Inr (Some a2, c1, H2) \<and> a2 \<noteq> a1 \<and>
         deref H1 a2 = None \<and> deref H2 a2 = Some m \<and> deref H2 a1 = deref H1 a1 \<and>
         trace H2 = trace H1 @ [Allocated a2, Copied v a2]))"
proof (intro conjI impI)
  assume "value_ptr c = Some v \<and> owned c = Some a"
  then show "as_unique_ptr (c, H) = Inr (Some a, c\<lparr>owned := None\<rparr>, H)"
    by (simp add: as_unique_ptr_def)
next
  assume "as_unique_ptr (c, H) = Inr (Some r, c', H')"
  then show "c' = c\<lparr>owned := None\<rparr>"
    by (auto simp: as_unique_ptr_def Let_def split: option.splits prod.splits)
next
  assume f: "as_unique_ptr (c, H) = Inr (Some a1, c1, H1) \<and> deref H1 a1 \<noteq> None \<and>
    value_ptr c = Some v \<and> deref H1 v = Some m"
  then have "c1 = c\<lparr>owned := None\<rparr>"
    by (auto simp: as_unique_ptr_def Let_def split: option.splits prod.splits)
  with f have v: "value_ptr c1 = Some v" and o: "owned c1 = None" and d: "deref H1 v = Some m"
    by simp_all
  from as_unique_ptr_borrowed [OF v o d] obtain a2 H2 where
    s: "as_unique_ptr (c1, H1) = Inr (Some a2, c1, H2)" and n: "deref H1 a2 = None" and
    t: "trace H2 = trace H1 @ [Allocated a2, Copied v a2]" and d2: "deref H2 a2 = Some m" and
    k: "\<forall>b. b \<noteq> a2 \<longrightarrow> deref H2 b = deref H1 b"
    by blast
  from f n have ne: "a2 \<noteq> a1"
    by auto
  with k have "deref H2 a1 = deref H1 a1"
    by simp
  with s n t d2 ne
  show "\<exists>a2 H2. as_unique_ptr (c1, H1) = Inr (Some a2, c1, H2) \<and> a2 \<noteq> a1 \<and>
         deref H1 a2 = None \<and> deref H2 a2 = Some m \<and> deref H2 a1 = deref H1 a1 \<and>
         trace H2 = trace H1 @ [Allocated a2, Copied v a2]"
    by blast
qed

theorem as_unique_ptr_hands_over_witness:
  "as_unique_ptr (\<lparr>value_ptr = Some 3, owned = Some 3\<rparr>, ex_loaded_heap) =
     Inr (Some 3, \<lparr>value_ptr = Some 3, owned = None\<rparr>, ex_loaded_heap) \<and>
   deref ex_loaded_heap 3 = Some \<lparr>reflection = 7, full_name = ''pkg.A'', body = ''data''\<rparr> \<and>
   (\<exists>a2 H2. as_unique_ptr (\<lparr>value_ptr = Some 3, owned = None\<rparr>, ex_loaded_heap) =
      Inr (Some a2, \<lparr>value_ptr = Some 3, owned = None\<rparr>, H2) \<and> a2 \<noteq> 3 \<and>
      deref H2 a2 = Some \<lparr>reflection = 7, full_name = ''pkg.A'', body = ''data''\<rparr>)"
proof -
  have v: "value_ptr \<lparr>value_ptr = Some 3, owned = Some 3\<rparr> = Some 3 \<and>
      owned \<lparr>value_ptr = Some 3, owned = Some 3\<rparr> = Some 3"
    by simp
  have d: "deref ex_loaded_heap 3 =
      Some \<lparr>reflection = 7, full_name = ''pkg.A'', body = ''data''\<rparr>"
    by (simp add: deref_def ex_loaded_heap_def)
  note t = as_unique_ptr_hands_over
    [of "\<lparr>value_ptr = Some 3, owned = Some 3\<rparr>" 3 3 ex_loaded_heap
        3 "\<lparr>value_ptr = Some 3, owned = None\<rparr>" ex_loaded_heap
        3 "\<lparr>value_ptr = Some 3, owned = None\<rparr>" ex_loaded_heap
        "\<lparr>reflection = 7, full_name = ''pkg.A'', body = ''data''\<rparr>"]
  from t v have f: "as_unique_ptr (\<lparr>value_ptr = Some 3, owned = Some 3\<rparr>, ex_loaded_heap) =
      Inr (Some 3, \<lparr>value_ptr = Some 3, owned = None\<rparr>, ex_loaded_heap)"
    by simp
  from t f d have "\<exists>a2 H2. as_unique_ptr (\<lparr>value_ptr = Some 3, owned = None\<rparr>, ex_loaded_heap) =
      Inr (Some a2, \<lparr>value_ptr = Some 3, owned = None\<rparr>, H2) \<and> a2 \<noteq> 3 \<and>
      deref ex_loaded_heap a2 = None \<and>
      deref H2 a2 = Some \<lparr>reflection = 7, full_name = ''pkg.A'', body = ''data''\<rparr> \<and>
      deref H2 3 = deref ex_loaded_heap 3 \<and>
      trace H2 = trace ex_loaded_heap @ [Allocated a2, Copied 3 a2]"
    by simp
  with f d show ?thesis
    by blast
qed

section \<open>Casting\<close>

text \<open>
  C3. The claim: for \<^verbatim>\<open>reference\<close> and for \<^verbatim>\<open>reference_internal\<close> the type error's
  message names the offending policy. The message is one fixed text. With
  \<^verbatim>\<open>reference_internal\<close> the cast raises it, and the name of that policy is not in it.
\<close>

theorem message_names_no_policy_counterexample:
  "cast_impl GenericFastCppProtoCast (Some 1) reference_internal PyNone True ex_world =
     Inl (type_error const_reference_message) \<and>
   \<not> sublist (policy_name reference_internal) const_reference_message"
  by (simp add: cast_impl_def const_reference_message_def sublist_Cons_right)

text \<open>
  C3, amended. A non-null pointer cast as a const source with \<^verbatim>\<open>reference\<close> or
  \<^verbatim>\<open>reference_internal\<close> raises \<^verbatim>\<open>type_error\<close>, in \<^verbatim>\<open>cast_impl\<close> and in the cast
  of a \<^verbatim>\<open>const ProtoType *\<close>, before \<^verbatim>\<open>GenericFastCppProtoCast\<close> is called. The
  message is the same text for both policies. It speaks of a const reference, so it
  holds the name of the policy \<^verbatim>\<open>reference\<close>, and it suggests
  \<^verbatim>\<open>return_value_policy::copy\<close>; the name \<^verbatim>\<open>reference_internal\<close> is not in it, so
  with that policy the message names \<^verbatim>\<open>reference\<close> only.
  The same pointer with \<^verbatim>\<open>copy\<close> raises nothing here and is passed on to
  \<^verbatim>\<open>GenericFastCppProtoCast\<close>; with that function as the specification describes it,
  and the object alive, the cast returns a Python object with a copy of the value, not
  the object itself, which stays as it was.
\<close>

theorem const_reference_is_type_error:
  assumes "policy = reference \<or> policy = reference_internal"
  shows "cast_impl G (Some p) policy parent True W =
           Inl (type_error const_reference_message) \<and>
         cast_const_ptr G (Some p) policy parent W =
           Inl (type_error const_reference_message) \<and>
         sublist ''const reference'' const_reference_message \<and>
         sublist ''return_value_policy::copy'' const_reference_message \<and>
         sublist (policy_name reference) const_reference_message \<and>
         sublist (policy_name copy) const_reference_message \<and>
         \<not> sublist (policy_name reference_internal) const_reference_message \<and>
         cast_impl G (Some p) copy parent True W = G p copy parent True W \<and>
         cast_const_ptr G (Some p) copy parent W = G p copy parent True W \<and>
         (\<forall>m. deref (native V) p = Some m \<longrightarrow>
            (\<exists>h V'. cast_impl GenericFastCppProtoCast (Some p) copy parent True V = Inr (h, V') \<and>
               view V' h = Some m \<and> target V' h \<noteq> Some p \<and> deref (native V') p = Some m))"
proof -
  have a: "cast_impl G (Some p) policy parent True W =
      Inl (type_error const_reference_message)"
    using assms by (auto simp: cast_impl_def)
  have b: "cast_const_ptr G (Some p) policy parent W =
      Inl (type_error const_reference_message)"
    using assms by (auto simp: cast_const_ptr_def cast_impl_def)
  have c: "sublist ''const reference'' const_reference_message"
    by (simp add: const_reference_message_def sublist_Cons_right)
  have d: "sublist ''return_value_policy::copy'' const_reference_message"
    by (simp add: const_reference_message_def sublist_Cons_right)
  have e: "\<not> sublist (policy_name reference_internal) const_reference_message"
    by (simp add: const_reference_message_def sublist_Cons_right)
  have e1: "sublist (policy_name reference) const_reference_message"
    by (simp add: const_reference_message_def sublist_Cons_right)
  have e2: "sublist (policy_name copy) const_reference_message"
    by (simp add: const_reference_message_def sublist_Cons_right)
  have f: "cast_impl G (Some p) copy parent True W = G p copy parent True W"
    by (simp add: cast_impl_def)
  have g: "cast_const_ptr G (Some p) copy parent W = G p copy parent True W"
    by (simp add: cast_const_ptr_def cast_impl_def)
  have i: "\<forall>m. deref (native V) p = Some m \<longrightarrow>
      (\<exists>h V'. cast_impl GenericFastCppProtoCast (Some p) copy parent True V = Inr (h, V') \<and>
         view V' h = Some m \<and> target V' h \<noteq> Some p \<and> deref (native V') p = Some m)"
  proof (intro allI impI)
    fix m
    assume m: "deref (native V) p = Some m"
    let ?n = "fresh_key (python V)"
    let ?a = "fresh_key (objects (native V))"
    from cast_copy_step [OF m, of parent True] obtain V' where
      r: "GenericFastCppProtoCast p copy parent True V = Inr (PyObject ?n, V')" and
      q: "python V' = (?n, \<lparr>wrapped = ?a, keep_alive = None\<rparr>) # python V" and
      k: "\<forall>b. deref (native V') b = (if b = ?a then Some m else deref (native V) b)"
      by blast
    have "deref (native V) ?a = None"
      by (simp add: deref_def fresh_key_unused)
    with m have ne: "?a \<noteq> p"
      by auto
    have t: "target V' (PyObject ?n) = Some ?a"
      by (simp add: target_def q)
    have v: "view V' (PyObject ?n) = Some m"
      using k by (simp add: view_def t)
    have o: "deref (native V') p = Some m"
      using k m ne by simp
    have "cast_impl GenericFastCppProtoCast (Some p) copy parent True V = Inr (PyObject ?n, V')"
      using r by (simp add: cast_impl_def)
    with t v o ne
    show "\<exists>h V'. cast_impl GenericFastCppProtoCast (Some p) copy parent True V = Inr (h, V') \<and>
         view V' h = Some m \<and> target V' h \<noteq> Some p \<and> deref (native V') p = Some m"
      by auto
  qed
  from a b c d e e1 e2 f g i show ?thesis
    by blast
qed

theorem const_reference_is_type_error_witness:
  "cast_impl GenericFastCppProtoCast (Some 1) reference PyNone True ex_world =
     Inl (type_error const_reference_message) \<and>
   cast_const_ptr GenericFastCppProtoCast (Some 1) reference PyNone ex_world =
     Inl (type_error const_reference_message) \<and>
   deref (native ex_world) 1 = Some \<lparr>reflection = 7, full_name = ''pkg.A'', body = ''x''\<rparr> \<and>
   (\<exists>h V'. cast_impl GenericFastCppProtoCast (Some 1) copy PyNone True ex_world = Inr (h, V') \<and>
      view V' h = Some \<lparr>reflection = 7, full_name = ''pkg.A'', body = ''x''\<rparr> \<and>
      target V' h \<noteq> Some 1)"
proof -
  have h: "deref (native ex_world) 1 =
      Some \<lparr>reflection = 7, full_name = ''pkg.A'', body = ''x''\<rparr>"
    by (simp add: ex_world_def ex_heap_def deref_def)
  have r: "reference = reference \<or> reference = reference_internal"
    by simp
  note t = const_reference_is_type_error
    [OF r, of GenericFastCppProtoCast 1 PyNone ex_world ex_world]
  from t h show ?thesis
    by blast
qed

text \<open>
  C9. The shared adapter never aliases: \<^verbatim>\<open>copyable_holder_caster::cast\<close> of a holder
  with a referent calls \<^verbatim>\<open>GenericFastCppProtoCast\<close> with \<^verbatim>\<open>copy\<close> and a const
  source, whatever policy was asked for. With that function as the specification
  describes it, two such casts of one live object give two different Python objects
  over two different new C++ objects, neither of them the original; each shows the
  original's value; a write through one changes what that one shows and neither what
  the other shows nor the original, and a write to the original changes neither.
\<close>

theorem shared_adapter_never_aliases:
  assumes "deref (native W) p = Some m"
  shows "copyable_holder_cast G (Some p) policy parent V = G p copy parent True V \<and>
     (\<exists>h1 W1 h2 W2 a1 a2.
        copyable_holder_cast GenericFastCppProtoCast (Some p) policy1 parent1 W = Inr (h1, W1) \<and>
        copyable_holder_cast GenericFastCppProtoCast (Some p) policy2 parent2 W1 = Inr (h2, W2) \<and>
        h1 \<noteq> h2 \<and> target W2 h1 = Some a1 \<and> target W2 h2 = Some a2 \<and>
        a1 \<noteq> a2 \<and> a1 \<noteq> p \<and> a2 \<noteq> p \<and>
        view W2 h1 = Some m \<and> view W2 h2 = Some m \<and> deref (native W2) p = Some m \<and>
        (\<forall>b. view (mutate h1 b W2) h1 = Some (m\<lparr>body := b\<rparr>) \<and>
             view (mutate h1 b W2) h2 = Some m \<and>
             deref (native (mutate h1 b W2)) p = Some m) \<and>
        (\<forall>b. view (mutate h2 b W2) h2 = Some (m\<lparr>body := b\<rparr>) \<and>
             view (mutate h2 b W2) h1 = Some m \<and>
             deref (native (mutate h2 b W2)) p = Some m) \<and>
        (\<forall>b. view (write_native p b W2) h1 = Some m \<and>
             view (write_native p b W2) h2 = Some m))"
proof (rule conjI)
  show "copyable_holder_cast G (Some p) policy parent V = G p copy parent True V"
    by (rule copyable_holder_cast_is_copy)
next
  let ?n1 = "fresh_key (python W)"
  let ?a1 = "fresh_key (objects (native W))"
  from cast_copy_step [OF assms, of parent1 True] obtain W1 where
    c1: "GenericFastCppProtoCast p copy parent1 True W = Inr (PyObject ?n1, W1)" and
    p1: "python W1 = (?n1, \<lparr>wrapped = ?a1, keep_alive = None\<rparr>) # python W" and
    d1: "\<forall>b. deref (native W1) b = (if b = ?a1 then Some m else deref (native W) b)"
    by blast
  have f1: "deref (native W) ?a1 = None"
    by (simp add: deref_def fresh_key_unused)
  with assms have ne1: "?a1 \<noteq> p"
    by auto
  with d1 assms have m1: "deref (native W1) p = Some m"
    by simp
  let ?n2 = "fresh_key (python W1)"
  let ?a2 = "fresh_key (objects (native W1))"
  from cast_copy_step [OF m1, of parent2 True] obtain W2 where
    c2: "GenericFastCppProtoCast p copy parent2 True W1 = Inr (PyObject ?n2, W2)" and
    p2: "python W2 = (?n2, \<lparr>wrapped = ?a2, keep_alive = None\<rparr>) # python W1" and
    d2: "\<forall>b. deref (native W2) b = (if b = ?a2 then Some m else deref (native W1) b)"
    by blast
  have f2: "deref (native W1) ?a2 = None"
    by (simp add: deref_def fresh_key_unused)
  with m1 have ne2: "?a2 \<noteq> p"
    by auto
  from d1 have "deref (native W1) ?a1 = Some m"
    by simp
  with f2 have ne12: "?a1 \<noteq> ?a2"
    by auto
  have nn: "?n1 \<noteq> ?n2"
    using fresh_key_Cons_neq [of ?n1 "\<lparr>wrapped = ?a1, keep_alive = None\<rparr>" "python W"] p1
    by simp
  have t1: "target W2 (PyObject ?n1) = Some ?a1"
    using nn by (simp add: target_def p2 p1)
  have t2: "target W2 (PyObject ?n2) = Some ?a2"
    by (simp add: target_def p2)
  have e1: "deref (native W2) ?a1 = Some m"
    using d1 d2 ne12 by simp
  have e2: "deref (native W2) ?a2 = Some m"
    using d2 by simp
  have e3: "deref (native W2) p = Some m"
    using d2 m1 ne2 by simp
  have v1: "view W2 (PyObject ?n1) = Some m"
    by (simp add: view_def t1 e1)
  have v2: "view W2 (PyObject ?n2) = Some m"
    by (simp add: view_def t2 e2)
  have w1: "\<forall>b. view (mutate (PyObject ?n1) b W2) (PyObject ?n1) = Some (m\<lparr>body := b\<rparr>) \<and>
      view (mutate (PyObject ?n1) b W2) (PyObject ?n2) = Some m \<and>
      deref (native (mutate (PyObject ?n1) b W2)) p = Some m"
    using ne12 ne1 e1 e2 e3
    by (simp add: mutate_def view_def t1 t2 target_write_native deref_write_native)
  have w2: "\<forall>b. view (mutate (PyObject ?n2) b W2) (PyObject ?n2) = Some (m\<lparr>body := b\<rparr>) \<and>
      view (mutate (PyObject ?n2) b W2) (PyObject ?n1) = Some m \<and>
      deref (native (mutate (PyObject ?n2) b W2)) p = Some m"
    using ne12 ne2 e1 e2 e3
    by (simp add: mutate_def view_def t1 t2 target_write_native deref_write_native)
  have w3: "\<forall>b. view (write_native p b W2) (PyObject ?n1) = Some m \<and>
      view (write_native p b W2) (PyObject ?n2) = Some m"
    using ne1 ne2 e1 e2
    by (simp add: view_def t1 t2 target_write_native deref_write_native)
  have k1: "copyable_holder_cast GenericFastCppProtoCast (Some p) policy1 parent1 W =
      Inr (PyObject ?n1, W1)"
    by (simp add: copyable_holder_cast_is_copy c1)
  have k2: "copyable_holder_cast GenericFastCppProtoCast (Some p) policy2 parent2 W1 =
      Inr (PyObject ?n2, W2)"
    by (simp add: copyable_holder_cast_is_copy c2)
  have hh: "PyObject ?n1 \<noteq> PyObject ?n2"
    using nn by simp
  from k1 k2 hh t1 t2 ne12 ne1 ne2 v1 v2 e3 w1 w2 w3
  show "\<exists>h1 W1 h2 W2 a1 a2.
        copyable_holder_cast GenericFastCppProtoCast (Some p) policy1 parent1 W = Inr (h1, W1) \<and>
        copyable_holder_cast GenericFastCppProtoCast (Some p) policy2 parent2 W1 = Inr (h2, W2) \<and>
        h1 \<noteq> h2 \<and> target W2 h1 = Some a1 \<and> target W2 h2 = Some a2 \<and>
        a1 \<noteq> a2 \<and> a1 \<noteq> p \<and> a2 \<noteq> p \<and>
        view W2 h1 = Some m \<and> view W2 h2 = Some m \<and> deref (native W2) p = Some m \<and>
        (\<forall>b. view (mutate h1 b W2) h1 = Some (m\<lparr>body := b\<rparr>) \<and>
             view (mutate h1 b W2) h2 = Some m \<and>
             deref (native (mutate h1 b W2)) p = Some m) \<and>
        (\<forall>b. view (mutate h2 b W2) h2 = Some (m\<lparr>body := b\<rparr>) \<and>
             view (mutate h2 b W2) h1 = Some m \<and>
             deref (native (mutate h2 b W2)) p = Some m) \<and>
        (\<forall>b. view (write_native p b W2) h1 = Some m \<and>
             view (write_native p b W2) h2 = Some m)"
    by blast
qed

theorem shared_adapter_never_aliases_witness:
  "deref (native ex_world) 1 = Some \<lparr>reflection = 7, full_name = ''pkg.A'', body = ''x''\<rparr> \<and>
   copyable_holder_cast GenericFastCppProtoCast (Some 1) reference PyNone ex_world =
     GenericFastCppProtoCast 1 copy PyNone True ex_world \<and>
   copyable_holder_cast GenericFastCppProtoCast (Some 1) reference PyNone ex_world =
     Inr (PyObject 1,
       \<lparr>native =
          \<lparr>objects = [(3, \<lparr>reflection = 7, full_name = ''pkg.A'', body = ''x''\<rparr>),
                      (1, \<lparr>reflection = 7, full_name = ''pkg.A'', body = ''x''\<rparr>),
                      (2, \<lparr>reflection = 8, full_name = ''pkg.A'', body = ''y''\<rparr>)],
           trace = [Allocated 3, Copied 1 3]\<rparr>,
        python = [(1, \<lparr>wrapped = 3, keep_alive = None\<rparr>)]\<rparr>) \<and>
   (\<exists>h1 W1 h2 W2.
      copyable_holder_cast GenericFastCppProtoCast (Some 1) reference PyNone ex_world =
        Inr (h1, W1) \<and>
      copyable_holder_cast GenericFastCppProtoCast (Some 1) reference_internal (PyObject 9) W1 =
        Inr (h2, W2) \<and>
      h1 \<noteq> h2 \<and> target W2 h1 \<noteq> Some 1 \<and> target W2 h2 \<noteq> Some 1 \<and>
      view (mutate h1 ''z'' W2) h1 = Some \<lparr>reflection = 7, full_name = ''pkg.A'', body = ''z''\<rparr> \<and>
      view (mutate h1 ''z'' W2) h2 = Some \<lparr>reflection = 7, full_name = ''pkg.A'', body = ''x''\<rparr>)"
proof -
  have h: "deref (native ex_world) 1 =
      Some \<lparr>reflection = 7, full_name = ''pkg.A'', body = ''x''\<rparr>"
    by (simp add: ex_world_def ex_heap_def deref_def)
  note t = shared_adapter_never_aliases
    [OF h, of GenericFastCppProtoCast reference PyNone ex_world
       reference PyNone reference_internal "PyObject 9"]
  from t have a: "copyable_holder_cast GenericFastCppProtoCast (Some 1) reference PyNone ex_world =
      GenericFastCppProtoCast 1 copy PyNone True ex_world"
    by blast
  from t obtain h1 W1 h2 W2 a1 a2 where
    "copyable_holder_cast GenericFastCppProtoCast (Some 1) reference PyNone ex_world =
       Inr (h1, W1)"
    "copyable_holder_cast GenericFastCppProtoCast (Some 1) reference_internal (PyObject 9) W1 =
       Inr (h2, W2)"
    "h1 \<noteq> h2" "target W2 h1 = Some a1" "target W2 h2 = Some a2" "a1 \<noteq> 1" "a2 \<noteq> 1"
    "\<forall>b. view (mutate h1 b W2) h1 =
         Some (\<lparr>reflection = 7, full_name = ''pkg.A'', body = ''x''\<rparr>\<lparr>body := b\<rparr>) \<and>
       view (mutate h1 b W2) h2 = Some \<lparr>reflection = 7, full_name = ''pkg.A'', body = ''x''\<rparr> \<and>
       deref (native (mutate h1 b W2)) 1 =
         Some \<lparr>reflection = 7, full_name = ''pkg.A'', body = ''x''\<rparr>"
    by blast
  then have b: "\<exists>h1 W1 h2 W2.
      copyable_holder_cast GenericFastCppProtoCast (Some 1) reference PyNone ex_world =
        Inr (h1, W1) \<and>
      copyable_holder_cast GenericFastCppProtoCast (Some 1) reference_internal (PyObject 9) W1 =
        Inr (h2, W2) \<and>
      h1 \<noteq> h2 \<and> target W2 h1 \<noteq> Some 1 \<and> target W2 h2 \<noteq> Some 1 \<and>
      view (mutate h1 ''z'' W2) h1 = Some \<lparr>reflection = 7, full_name = ''pkg.A'', body = ''z''\<rparr> \<and>
      view (mutate h1 ''z'' W2) h2 = Some \<lparr>reflection = 7, full_name = ''pkg.A'', body = ''x''\<rparr>"
    by (intro exI [of _ h1] exI [of _ W1] exI [of _ h2] exI [of _ W2]) simp
  from h a ex_shared_cast b show ?thesis
    by blast
qed

end
